(* ===== verification/Prelude.thy ===== *)
theory Prelude
  imports Main "HOL-Library.Sublist"
begin

text \<open>
  Shared vocabulary of the SmartLink development: the names of the model's basic
  types, the fragment of the JavaScript runtime that the repository's code calls
  (\<open>String.prototype.toLowerCase\<close>, \<open>toUpperCase\<close>, \<open>includes\<close>, \<open>split\<close>,
  \<open>Array.prototype.join\<close>, indexing a string with \<open>s[0]\<close>), the decimal printing
  and parsing of integers that Mongoose's casts perform, and the lemma collections
  the component theories share. Apart from \<open>initials\<close>, an expression that two
  components of the dashboard repeat, nothing here is code of the repository: these are
  the built-ins the code relies on, written as executable HOL functions.
\<close>

named_theorems js_simps "equations of the modelled JavaScript built-ins"
named_theorems model_defs "definitions of the model unfolded by component proofs"

type_synonym oid = nat \<comment> \<open>a MongoDB ObjectId, an opaque identifier\<close>
type_synonym timestamp = nat \<comment> \<open>milliseconds of the clock \<open>Date.now()\<close>\<close>

subsection \<open>Characters and case mapping\<close>

text \<open>
  \<open>toLowerCase\<close> and \<open>toUpperCase\<close> on the ASCII letters; every other character is
  left unchanged (the repository's data and queries are ASCII in the searched fields).
\<close>

definition js_lower_char :: "char \<Rightarrow> char" where
  "js_lower_char c =
     (let n = (of_char c :: nat) in if 65 \<le> n \<and> n \<le> 90 then char_of (n + 32) else c)"

definition js_upper_char :: "char \<Rightarrow> char" where
  "js_upper_char c =
     (let n = (of_char c :: nat) in if 97 \<le> n \<and> n \<le> 122 then char_of (n - 32) else c)"

definition js_lower :: "string \<Rightarrow> string" where
  "js_lower s = map js_lower_char s"

definition js_upper :: "string \<Rightarrow> string" where
  "js_upper s = map js_upper_char s"

subsection \<open>Substring search\<close>

text \<open>\<open>hay.includes(needle)\<close>: the scan the engine performs, one start position after the other.\<close>

fun js_includes :: "string \<Rightarrow> string \<Rightarrow> bool" where
  "js_includes [] needle = (needle = [])"
| "js_includes (c # cs) needle = (prefix needle (c # cs) \<or> js_includes cs needle)"

subsection \<open>Splitting and joining\<close>

text \<open>
  \<open>s.split(d)\<close> for a one-character separator: the pieces between separators, empty
  pieces included, and at least one piece (\<open>"".split(" ")\<close> is \<open>[""]\<close>).
  \<open>xs.join(d)\<close> puts the separator between the pieces.
\<close>

fun cons_first :: "char \<Rightarrow> string list \<Rightarrow> string list" where
  "cons_first c [] = [[c]]"
| "cons_first c (p # ps) = (c # p) # ps"

fun js_split :: "char \<Rightarrow> string \<Rightarrow> string list" where
  "js_split d [] = [[]]"
| "js_split d (c # cs) = (if c = d then [] # js_split d cs else cons_first c (js_split d cs))"

fun js_join :: "string \<Rightarrow> string list \<Rightarrow> string" where
  "js_join sep [] = []"
| "js_join sep [p] = p"
| "js_join sep (p # ps) = p @ sep @ js_join sep ps"

text \<open>
  \<open>s[0]\<close> is \<open>undefined\<close> on the empty string, and \<open>join\<close> prints
  \<open>undefined\<close> elements as the empty string.
\<close>

definition js_at0 :: "string \<Rightarrow> char option" where
  "js_at0 s = (case s of [] \<Rightarrow> None | c # _ \<Rightarrow> Some c)"

definition js_join_chars :: "char option list \<Rightarrow> string" where
  "js_join_chars cs = concat (map (\<lambda>c. case c of None \<Rightarrow> [] | Some x \<Rightarrow> [x]) cs)"

subsection \<open>Decimal numbers\<close>

fun show_nat :: "nat \<Rightarrow> string" where
  "show_nat n = (if n < 10 then [char_of (48 + n)] else show_nat (n div 10) @ [char_of (48 + n mod 10)])"

declare show_nat.simps [simp del]

definition show_int :: "int \<Rightarrow> string" where
  "show_int i = (if i < 0 then CHR ''-'' # show_nat (nat (- i)) else show_nat (nat i))"

definition digit_val :: "char \<Rightarrow> nat option" where
  "digit_val c = (let n = (of_char c :: nat) in if 48 \<le> n \<and> n \<le> 57 then Some (n - 48) else None)"

fun parse_digits :: "nat \<Rightarrow> string \<Rightarrow> nat option" where
  "parse_digits acc [] = Some acc"
| "parse_digits acc (c # cs) =
     (case digit_val c of None \<Rightarrow> None | Some d \<Rightarrow> parse_digits (10 * acc + d) cs)"

definition parse_nat :: "string \<Rightarrow> nat option" where
  "parse_nat s = (if s = [] then None else parse_digits 0 s)"

definition parse_int :: "string \<Rightarrow> int option" where
  "parse_int s =
     (case s of
        c # cs \<Rightarrow> if c = CHR ''-'' then map_option (\<lambda>n. - int n) (parse_nat cs)
                  else map_option int (parse_nat s)
      | [] \<Rightarrow> None)"

text \<open>The naira sign U+20A6 as the three UTF-8 bytes of the source's string literals.\<close>

definition naira :: string where
  "naira = [CHR 0xE2, CHR 0x82, CHR 0xA6]"

text \<open>
  \<open>Number.prototype.toString\<close> on a number with at most one decimal, given in tenths:
  4.8 prints as \<open>"4.8"\<close>, 5.0 as \<open>"5"\<close>.
\<close>

definition js_tenths :: "nat \<Rightarrow> string" where
  "js_tenths r = (if r mod 10 = 0 then show_nat (r div 10) else show_nat (r div 10) @ ''.'' @ show_nat (r mod 10))"

subsection \<open>Idioms the React components share\<close>

text \<open>
  Reading a property of \<open>undefined\<close> throws a \<open>TypeError\<close> naming the property; it aborts
  the render. \<open>theme dark d l\<close> is the template fragment \<open>${isDarkMode ? d : l}\<close>.
\<close>

datatype js_error = TypeError string

definition theme :: "bool \<Rightarrow> string \<Rightarrow> string \<Rightarrow> string" where
  "theme dark d l = (if dark then d else l)"

text \<open>The avatar initials: \<open>customer.split(' ').map(n => n[0]).join('')\<close>.\<close>

definition initials :: "string \<Rightarrow> string" where
  "initials s = js_join_chars (map js_at0 (js_split CHR '' '' s))"

declare js_lower_def [js_simps] js_upper_def [js_simps] js_at0_def [js_simps]
  js_join_chars_def [js_simps]

subsection \<open>Lemmas on the built-ins\<close>

lemma js_includes_sublist [simp]: "js_includes hay needle = sublist needle hay"
  by (induction hay) (auto simp: sublist_Cons_right)

lemma js_includes_Nil_needle: "js_includes hay []"
  by simp

lemma js_lower_char_idem [simp]: "js_lower_char (js_lower_char c) = js_lower_char c"
  by (auto simp: js_lower_char_def Let_def)

lemma js_lower_idem [simp]: "js_lower (js_lower s) = js_lower s"
  by (simp add: js_lower_def)

lemma js_lower_append [simp]: "js_lower (xs @ ys) = js_lower xs @ js_lower ys"
  by (simp add: js_lower_def)

lemma js_lower_length [simp]: "length (js_lower s) = length s"
  by (simp add: js_lower_def)

lemma cons_first_nonempty [simp]: "cons_first c ps \<noteq> []"
  by (cases ps) auto

lemma js_split_nonempty [simp]: "js_split d s \<noteq> []"
  by (induction s) auto

lemma js_join_cons_first: "js_join sep (cons_first c ps) = c # js_join sep ps"
  by (cases ps; cases "tl ps") auto

lemma js_join_Cons_nonempty: "ps \<noteq> [] \<Longrightarrow> js_join sep (p # ps) = p @ sep @ js_join sep ps"
  by (cases ps) auto

lemma js_split_join: "js_join [d] (js_split d s) = s"
proof (induction s)
  case Nil
  then show ?case by simp
next
  case (Cons c cs)
  then show ?case
    by (auto simp: js_join_cons_first js_join_Cons_nonempty)
qed

lemma js_split_pieces: "p \<in> set (js_split d s) \<Longrightarrow> d \<notin> set p"
proof (induction s arbitrary: p)
  case Nil
  then show ?case by simp
next
  case (Cons c cs)
  then show ?case
    by (cases "js_split d cs") (auto split: if_splits)
qed

lemma js_split_Cons_piece:
  "d \<notin> set p \<Longrightarrow> js_split d (p @ d # s) = p # js_split d s"
  by (induction p) auto

lemma js_split_single_piece: "d \<notin> set p \<Longrightarrow> js_split d p = [p]"
  by (induction p) auto

lemma js_join_split:
  "ps \<noteq> [] \<Longrightarrow> \<forall>p \<in> set ps. d \<notin> set p \<Longrightarrow> js_split d (js_join [d] ps) = ps"
proof (induction ps)
  case Nil
  then show ?case by simp
next
  case (Cons p ps)
  then show ?case
    by (cases "ps = []") (auto simp: js_split_single_piece js_split_Cons_piece js_join_Cons_nonempty)
qed

lemma digit_val_show [simp]:
  assumes "n < 10"
  shows "digit_val (char_of (48 + n)) = Some n"
proof -
  have "(of_char (char_of (48 + n) :: char) :: nat) = 48 + n"
    using assms by (simp only: of_char_of) simp
  with assms show ?thesis by (simp add: digit_val_def Let_def)
qed

lemma parse_digits_append:
  "parse_digits acc (xs @ ys) = (case parse_digits acc xs of None \<Rightarrow> None | Some a \<Rightarrow> parse_digits a ys)"
  by (induction acc xs rule: parse_digits.induct) (auto split: option.splits)

lemma parse_digits_show_nat: "parse_digits acc (show_nat n) = Some (acc * 10 ^ length (show_nat n) + n)"
proof (induction n arbitrary: acc rule: show_nat.induct)
  case (1 n)
  show ?case
  proof (cases "n < 10")
    case True
    then show ?thesis by (simp add: show_nat.simps [of n])
  next
    case False
    then have "parse_digits acc (show_nat n)
        = parse_digits (acc * 10 ^ length (show_nat (n div 10)) + n div 10) [char_of (48 + n mod 10)]"
      using "1.IH" by (simp add: show_nat.simps [of n] parse_digits_append)
    also have "\<dots> = Some (acc * 10 ^ length (show_nat n) + n)"
      using False by (simp add: show_nat.simps [of n] algebra_simps)
    finally show ?thesis .
  qed
qed

lemma show_nat_nonempty [simp]: "show_nat n \<noteq> []"
  by (subst show_nat.simps) simp

lemma parse_nat_show_nat [simp]: "parse_nat (show_nat n) = Some n"
  by (simp add: parse_nat_def parse_digits_show_nat)

lemma show_nat_hd_digit: "\<exists>c cs. show_nat n = c # cs \<and> digit_val c \<noteq> None"
proof (induction n rule: show_nat.induct)
  case (1 n)
  then show ?case
    by (cases "n < 10") (auto simp: show_nat.simps [of n])
qed

lemma digit_val_minus [simp]: "digit_val CHR ''-'' = None"
  by (simp add: digit_val_def)

lemma parse_int_show_int [simp]: "parse_int (show_int i) = Some i"
proof (cases "i < 0")
  case True
  then show ?thesis by (simp add: show_int_def parse_int_def)
next
  case False
  obtain c cs where sn: "show_nat (nat i) = c # cs" and "digit_val c \<noteq> None"
    using show_nat_hd_digit by blast
  then have "c \<noteq> CHR ''-''" by auto
  moreover from sn have "parse_nat (c # cs) = Some (nat i)"
    by (metis parse_nat_show_nat)
  ultimately show ?thesis
    using False by (simp add: show_int_def parse_int_def sn)
qed

lemma js_lower_upper_char: "js_lower_char (js_upper_char c) = js_lower_char c"
proof -
  have "(of_char c :: nat) < 256" by (rule nat_of_char_less_256)
  then show ?thesis
    by (auto simp: js_lower_char_def js_upper_char_def Let_def of_char_of)
qed

lemma js_lower_upper: "js_lower (js_upper s) = js_lower s"
  by (simp add: js_lower_def js_upper_def js_lower_upper_char)

end
