(* ===== verification/Mongoose.thy ===== *)
theory Mongoose
  imports Prelude
begin

text \<open>
  The part of Mongoose's document semantics that the repository's schemas rely on,
  as the library documents it: a schema is a list of paths, each with a type, an
  optional \<open>enum\<close> list, an optional \<open>default\<close>, a \<open>unique\<close> flag and an
  optional \<open>ref\<close>; \<open>{ timestamps: true }\<close> adds \<open>createdAt\<close> and \<open>updatedAt\<close>.
  Creating a document (\<open>Model.create\<close>, \<open>new Model(raw).save()\<close>) applies the
  defaults (an array path defaults to the empty array), casts every given value to its
  path's type, drops the keys the schema does not declare (strict mode), runs the enum
  validators, collects every failure into one \<open>ValidationError\<close>, and otherwise gives
  the document a fresh \<open>_id\<close> and its timestamps. Inserting into a collection fails with
  a duplicate-key error when a unique path's value (a missing value counts as
  \<open>null\<close>) is already present.
  This theory is library behaviour, not code of the repository; the repository's
  schemas are the data of theory \<open>Models\<close>.

  Modelled casts: a String path takes strings, numbers (printed in decimal) and booleans;
  a Number path takes numbers, decimal integer strings and booleans (as 1 and 0); a
  Boolean path takes booleans, \<open>"true"/"false"/"1"/"0"/"yes"/"no"\<close> and the numbers
  1 and 0; an ObjectId path takes identifiers; a \<open>[String]\<close> path takes an array of
  castable values or one castable value. Not modelled: fractional numbers, \<open>null\<close>,
  nested objects, hexadecimal ObjectId strings.
\<close>

datatype jval = JStr string | JNum int | JBool bool | JId oid | JArr "jval list"

datatype path_type = TString | TNumber | TBoolean | TObjectId | TStringArray

record path_opts =
  ptype :: path_type
  penum :: "string list"
  pdefault :: "jval option"
  punique :: bool
  pref :: "string option"

record schema =
  spaths :: "(string \<times> path_opts) list"
  stimestamps :: bool

type_synonym doc = "string \<rightharpoonup> jval"

datatype mg_error = CastError string | EnumError string | DuplicateKey string

definition plain :: "path_type \<Rightarrow> path_opts" where
  "plain t = \<lparr>ptype = t, penum = [], pdefault = None, punique = False, pref = None\<rparr>"

definition ref_to :: "string \<Rightarrow> path_opts" where
  "ref_to m = (plain TObjectId)\<lparr>pref := Some m\<rparr>"

subsection \<open>Casting one value\<close>

fun cast_string :: "jval \<Rightarrow> string option" where
  "cast_string (JStr s) = Some s"
| "cast_string (JNum n) = Some (show_int n)"
| "cast_string (JBool b) = Some (if b then ''true'' else ''false'')"
| "cast_string (JId i) = None"
| "cast_string (JArr vs) = None"

fun cast_number :: "jval \<Rightarrow> int option" where
  "cast_number (JNum n) = Some n"
| "cast_number (JStr s) = parse_int s"
| "cast_number (JBool b) = Some (if b then 1 else 0)"
| "cast_number (JId i) = None"
| "cast_number (JArr vs) = None"

fun cast_boolean :: "jval \<Rightarrow> bool option" where
  "cast_boolean (JBool b) = Some b"
| "cast_boolean (JStr s) =
     (if s \<in> {''true'', ''1'', ''yes''} then Some True
      else if s \<in> {''false'', ''0'', ''no''} then Some False else None)"
| "cast_boolean (JNum n) = (if n = 1 then Some True else if n = 0 then Some False else None)"
| "cast_boolean (JId i) = None"
| "cast_boolean (JArr vs) = None"

fun cast_path :: "path_type \<Rightarrow> jval \<Rightarrow> jval option" where
  "cast_path TString v = map_option JStr (cast_string v)"
| "cast_path TNumber v = map_option JNum (cast_number v)"
| "cast_path TBoolean v = map_option JBool (cast_boolean v)"
| "cast_path TObjectId v = (case v of JId i \<Rightarrow> Some (JId i) | _ \<Rightarrow> None)"
| "cast_path TStringArray v =
     (case v of
        JArr vs \<Rightarrow> map_option (\<lambda>ss. JArr (map JStr ss)) (those (map cast_string vs))
      | _ \<Rightarrow> map_option (\<lambda>s. JArr [JStr s]) (cast_string v))"

subsection \<open>Casting and validating a document\<close>

text \<open>The value a path starts from: the given one, else the default, else \<open>[]\<close> for arrays.\<close>

definition initial_value :: "path_opts \<Rightarrow> jval option \<Rightarrow> jval option" where
  "initial_value po v =
     (case v of
        Some x \<Rightarrow> Some x
      | None \<Rightarrow> (case pdefault po of
                  Some d \<Rightarrow> Some d
                | None \<Rightarrow> if ptype po = TStringArray then Some (JArr []) else None))"

definition check_path :: "string \<Rightarrow> path_opts \<Rightarrow> jval option \<Rightarrow> mg_error list \<times> jval option" where
  "check_path p po v =
     (case initial_value po v of
        None \<Rightarrow> ([], None)
      | Some x \<Rightarrow>
          (case cast_path (ptype po) x of
             None \<Rightarrow> ([CastError p], None)
           | Some y \<Rightarrow>
               if penum po \<noteq> [] \<and> y \<notin> JStr ` set (penum po) then ([EnumError p], Some y)
               else ([], Some y)))"

fun cast_paths :: "(string \<times> path_opts) list \<Rightarrow> doc \<Rightarrow> mg_error list \<times> doc" where
  "cast_paths [] raw = ([], Map.empty)"
| "cast_paths ((p, po) # ps) raw =
     (let r = check_path p po (raw p);
          rest = cast_paths ps raw
      in (fst r @ fst rest, (snd rest)(p := snd r)))"

definition stamp :: "schema \<Rightarrow> timestamp \<Rightarrow> timestamp \<Rightarrow> doc \<Rightarrow> doc" where
  "stamp sch created updated d =
     (if stimestamps sch
      then d(''createdAt'' \<mapsto> JNum (int created), ''updatedAt'' \<mapsto> JNum (int updated))
      else d)"

definition mg_new :: "schema \<Rightarrow> doc \<Rightarrow> oid \<Rightarrow> timestamp \<Rightarrow> mg_error list + doc" where
  "mg_new sch raw fresh now =
     (let (es, d) = cast_paths (spaths sch) raw
      in if es \<noteq> [] then Inl es else Inr (stamp sch now now (d(''_id'' \<mapsto> JId fresh))))"

subsection \<open>Collections and unique indexes\<close>

type_synonym collection = "doc list"

definition unique_paths :: "schema \<Rightarrow> string list" where
  "unique_paths sch = ''_id'' # map fst (filter (\<lambda>(p, po). punique po) (spaths sch))"

definition clashes :: "schema \<Rightarrow> collection \<Rightarrow> doc \<Rightarrow> string list" where
  "clashes sch coll d = filter (\<lambda>p. \<exists>d' \<in> set coll. d' p = d p) (unique_paths sch)"

definition mg_insert :: "schema \<Rightarrow> collection \<Rightarrow> doc \<Rightarrow> mg_error list + collection" where
  "mg_insert sch coll d =
     (case clashes sch coll d of
        [] \<Rightarrow> Inr (coll @ [d])
      | p # _ \<Rightarrow> Inl [DuplicateKey p])"

definition mg_create :: "schema \<Rightarrow> collection \<Rightarrow> doc \<Rightarrow> oid \<Rightarrow> timestamp \<Rightarrow> mg_error list + (collection \<times> doc)" where
  "mg_create sch coll raw fresh now =
     (case mg_new sch raw fresh now of
        Inl es \<Rightarrow> Inl es
      | Inr d \<Rightarrow> (case mg_insert sch coll d of Inl es \<Rightarrow> Inl es | Inr coll' \<Rightarrow> Inr (coll', d)))"

subsection \<open>Conformance of a stored document to its schema\<close>

fun type_fits :: "path_type \<Rightarrow> jval \<Rightarrow> bool" where
  "type_fits TString v = (case v of JStr _ \<Rightarrow> True | _ \<Rightarrow> False)"
| "type_fits TNumber v = (case v of JNum _ \<Rightarrow> True | _ \<Rightarrow> False)"
| "type_fits TBoolean v = (case v of JBool _ \<Rightarrow> True | _ \<Rightarrow> False)"
| "type_fits TObjectId v = (case v of JId _ \<Rightarrow> True | _ \<Rightarrow> False)"
| "type_fits TStringArray v =
     (case v of JArr vs \<Rightarrow> list_all (\<lambda>x. case x of JStr _ \<Rightarrow> True | _ \<Rightarrow> False) vs | _ \<Rightarrow> False)"

definition value_fits :: "path_opts \<Rightarrow> jval \<Rightarrow> bool" where
  "value_fits po v = (type_fits (ptype po) v \<and> (penum po \<noteq> [] \<longrightarrow> v \<in> JStr ` set (penum po)))"

definition conforms :: "schema \<Rightarrow> doc \<Rightarrow> bool" where
  "conforms sch d =
     (list_all (\<lambda>(p, po). case d p of None \<Rightarrow> pdefault po = None \<and> ptype po \<noteq> TStringArray
                                  | Some v \<Rightarrow> value_fits po v) (spaths sch)
      \<and> (\<exists>i. d ''_id'' = Some (JId i))
      \<and> (stimestamps sch \<longrightarrow> (\<exists>c u. d ''createdAt'' = Some (JNum c) \<and> d ''updatedAt'' = Some (JNum u))))"

definition reserved_ok :: "schema \<Rightarrow> bool" where
  "reserved_ok sch =
     (distinct (map fst (spaths sch)) \<and>
      list_all (\<lambda>(p, _). p \<notin> {''_id'', ''createdAt'', ''updatedAt''}) (spaths sch))"

lemmas mongoose_defs [model_defs] = plain_def ref_to_def initial_value_def check_path_def
  stamp_def mg_new_def unique_paths_def clashes_def mg_insert_def mg_create_def
  value_fits_def conforms_def reserved_ok_def

subsection \<open>Library facts the schema theories use\<close>

lemma cast_paths_dom: "dom (snd (cast_paths ps raw)) \<subseteq> fst ` set ps"
  by (induction ps raw rule: cast_paths.induct) (auto simp: Let_def dom_def)

lemma cast_paths_lookup:
  "distinct (map fst ps) \<Longrightarrow> (p, po) \<in> set ps \<Longrightarrow>
   snd (cast_paths ps raw) p = snd (check_path p po (raw p))"
  by (induction ps raw rule: cast_paths.induct) (auto simp: Let_def image_iff)

lemma cast_paths_errors:
  "fst (cast_paths ps raw) = concat (map (\<lambda>(p, po). fst (check_path p po (raw p))) ps)"
  by (induction ps raw rule: cast_paths.induct) (auto simp: Let_def)

lemma cast_paths_no_error:
  "fst (cast_paths ps raw) = [] \<Longrightarrow> (p, po) \<in> set ps \<Longrightarrow> fst (check_path p po (raw p)) = []"
  by (auto simp: cast_paths_errors)

lemma check_path_enum:
  "fst (check_path p po v) = [] \<Longrightarrow> snd (check_path p po v) = Some y \<Longrightarrow> penum po \<noteq> [] \<Longrightarrow>
   y \<in> JStr ` set (penum po)"
  by (auto simp: check_path_def split: option.splits if_splits)

lemma check_path_absent:
  "pdefault po = None \<Longrightarrow> ptype po \<noteq> TStringArray \<Longrightarrow> check_path p po None = ([], None)"
  by (simp add: check_path_def initial_value_def)

lemma check_path_default:
  "pdefault po = Some d \<Longrightarrow> check_path p po None = check_path p po (Some d)"
  by (simp add: check_path_def initial_value_def)

lemma mg_new_Inr:
  "mg_new sch raw fresh now = Inr d \<Longrightarrow>
   fst (cast_paths (spaths sch) raw) = [] \<and> d = stamp sch now now ((snd (cast_paths (spaths sch) raw))(''_id'' \<mapsto> JId fresh))"
  by (auto simp: mg_new_def split_def Let_def split: if_splits)

lemma cast_path_fits: "cast_path t x = Some y \<Longrightarrow> type_fits t y"
proof (cases t)
  case TStringArray
  moreover assume "cast_path t x = Some y"
  ultimately show ?thesis
    by (cases x) (auto simp: list_all_iff split: option.splits)
qed (cases x; auto split: jval.splits)+

lemma check_path_fits:
  "fst (check_path p po v) = [] \<Longrightarrow> snd (check_path p po v) = Some y \<Longrightarrow> value_fits po y"
  by (auto simp: check_path_def value_fits_def cast_path_fits split: option.splits if_splits)

lemma check_path_present:
  "snd (check_path p po v) = None \<Longrightarrow> fst (check_path p po v) = [] \<Longrightarrow>
   v = None \<and> pdefault po = None \<and> ptype po \<noteq> TStringArray"
  by (auto simp: check_path_def initial_value_def split: option.splits if_splits)

lemma cast_paths_conform:
  assumes "distinct (map fst ps)" and "fst (cast_paths ps raw) = []"
  shows "list_all (\<lambda>(p, po). case snd (cast_paths ps raw) p of
                      None \<Rightarrow> pdefault po = None \<and> ptype po \<noteq> TStringArray
                    | Some v \<Rightarrow> value_fits po v) ps"
  unfolding list_all_iff
proof (intro ballI, clarify)
  fix p po assume mem: "(p, po) \<in> set ps"
  with assms(2) have ok: "fst (check_path p po (raw p)) = []"
    by (rule cast_paths_no_error)
  from assms(1) mem have eq: "snd (cast_paths ps raw) p = snd (check_path p po (raw p))"
    by (rule cast_paths_lookup)
  show "case snd (cast_paths ps raw) p of
          None \<Rightarrow> pdefault po = None \<and> ptype po \<noteq> TStringArray | Some v \<Rightarrow> value_fits po v"
    using ok check_path_fits [OF ok] check_path_present [OF _ ok] unfolding eq
    by (auto split: option.splits)
qed

lemma stamp_other: "p \<noteq> ''createdAt'' \<Longrightarrow> p \<noteq> ''updatedAt'' \<Longrightarrow> stamp sch c u d p = d p"
  by (simp add: stamp_def)

lemma mg_new_conforms:
  assumes ok: "reserved_ok sch" and new: "mg_new sch raw fresh now = Inr d"
  shows "conforms sch d"
proof -
  let ?d0 = "snd (cast_paths (spaths sch) raw)"
  from mg_new_Inr [OF new] have noerr: "fst (cast_paths (spaths sch) raw) = []"
    and d: "d = stamp sch now now (?d0(''_id'' \<mapsto> JId fresh))" by auto
  from ok have dist: "distinct (map fst (spaths sch))" by (simp add: reserved_ok_def)
  have same: "d p = ?d0 p" if "(p, po) \<in> set (spaths sch)" for p po
    using ok that unfolding d reserved_ok_def list_all_iff by (auto simp: stamp_def)
  have paths: "list_all (\<lambda>(p, po). case d p of
                  None \<Rightarrow> pdefault po = None \<and> ptype po \<noteq> TStringArray
                | Some v \<Rightarrow> value_fits po v) (spaths sch)"
    using cast_paths_conform [OF dist noerr] same unfolding list_all_iff by fastforce
  show ?thesis
    using paths unfolding conforms_def d by (auto simp: stamp_def)
qed

lemma mg_new_lookup:
  assumes ok: "reserved_ok sch" and new: "mg_new sch raw fresh now = Inr d"
    and mem: "(p, po) \<in> set (spaths sch)"
  shows "d p = snd (check_path p po (raw p))"
proof -
  from mg_new_Inr [OF new] have d: "d = stamp sch now now ((snd (cast_paths (spaths sch) raw))(''_id'' \<mapsto> JId fresh))"
    by simp
  from ok mem have "p \<noteq> ''_id''" "p \<noteq> ''createdAt''" "p \<noteq> ''updatedAt''"
    by (auto simp: reserved_ok_def list_all_iff)
  with d have "d p = snd (cast_paths (spaths sch) raw) p" by (simp add: stamp_def)
  also from ok mem have "\<dots> = snd (check_path p po (raw p))"
    by (intro cast_paths_lookup) (simp_all add: reserved_ok_def)
  finally show ?thesis .
qed

lemma mg_new_error:
  assumes mem: "(p, po) \<in> set (spaths sch)" and e: "e \<in> set (fst (check_path p po (raw p)))"
  shows "\<exists>es. mg_new sch raw fresh now = Inl es \<and> e \<in> set es"
proof -
  from mem e have "e \<in> set (fst (cast_paths (spaths sch) raw))"
    by (force simp: cast_paths_errors)
  then show ?thesis by (auto simp: mg_new_def split_def Let_def)
qed

lemma mg_new_stamps:
  "mg_new sch raw fresh now = Inr d \<Longrightarrow> stimestamps sch \<Longrightarrow>
   d ''_id'' = Some (JId fresh) \<and> d ''createdAt'' = Some (JNum (int now)) \<and> d ''updatedAt'' = Some (JNum (int now))"
  by (auto dest!: mg_new_Inr simp: stamp_def)

lemma mg_insert_Inr: "mg_insert sch coll d = Inr coll' \<Longrightarrow> coll' = coll @ [d] \<and> clashes sch coll d = []"
  by (auto simp: mg_insert_def split: list.splits)

lemma mg_insert_unique:
  "mg_insert sch coll d = Inr coll' \<Longrightarrow> p \<in> set (unique_paths sch) \<Longrightarrow> d' \<in> set coll \<Longrightarrow> d' p \<noteq> d p"
  by (fastforce simp: mg_insert_def clashes_def filter_empty_conv split: list.splits)

text \<open>Strict mode: keys outside the schema do not reach the created document.\<close>

lemma cast_paths_strict:
  "(\<And>p. p \<in> fst ` set ps \<Longrightarrow> raw p = raw' p) \<Longrightarrow> cast_paths ps raw = cast_paths ps raw'"
  by (induction ps raw rule: cast_paths.induct) (auto simp: Let_def)

lemma mg_new_strict:
  "(\<And>p. p \<in> fst ` set (spaths sch) \<Longrightarrow> raw p = raw' p) \<Longrightarrow> mg_new sch raw fresh now = mg_new sch raw' fresh now"
  by (simp add: mg_new_def cast_paths_strict [of "spaths sch" raw raw'])

lemma mg_new_id: "mg_new sch raw fresh now = Inr d \<Longrightarrow> d ''_id'' = Some (JId fresh)"
  by (auto dest!: mg_new_Inr simp: stamp_other)

lemma mg_new_ok: "fst (cast_paths (spaths sch) raw) = [] \<Longrightarrow> \<exists>d. mg_new sch raw fresh now = Inr d"
  by (simp add: mg_new_def split_def)

end
