(* ===== verification/Models.thy ===== *)
theory Models
  imports Mongoose "HOL-Library.Monad_Syntax"
begin

text \<open>
  The repository's three Mongoose schemas as data (\<open>src/smartlink-backend/models/\<close>
  \<open>Order.js\<close>, \<open>User.js\<close>, \<open>Product.js\<close>), the enumerations they declare as
  datatypes with their string encodings, and the typed view of an order document that
  the order lifecycle works on, with its decoding from and encoding to a stored
  document.
\<close>

subsection \<open>Order.js\<close>

definition order_status_values :: "string list" where
  "order_status_values = [''pending'', ''assigned'', ''picked'', ''delivered'', ''cancelled'']"

definition delivery_mode_values :: "string list" where
  "delivery_mode_values = [''local'', ''interstate'']"

definition orderSchema :: schema where
  "orderSchema =
     \<lparr>spaths =
        [(''buyerId'', ref_to ''User''),
         (''sellerId'', ref_to ''User''),
         (''riderId'', ref_to ''User''),
         (''productId'', ref_to ''Product''),
         (''total'', plain TNumber),
         (''status'', (plain TString)\<lparr>penum := order_status_values, pdefault := Some (JStr ''pending'')\<rparr>),
         (''deliveryMode'', (plain TString)\<lparr>penum := delivery_mode_values\<rparr>)],
      stimestamps = True\<rparr>"

datatype order_status = Pending | Assigned | Picked | Delivered | Cancelled

datatype delivery_mode = Local | Interstate

fun status_str :: "order_status \<Rightarrow> string" where
  "status_str Pending = ''pending''"
| "status_str Assigned = ''assigned''"
| "status_str Picked = ''picked''"
| "status_str Delivered = ''delivered''"
| "status_str Cancelled = ''cancelled''"

definition all_statuses :: "order_status list" where
  "all_statuses = [Pending, Assigned, Picked, Delivered, Cancelled]"

definition status_of_str :: "string \<Rightarrow> order_status option" where
  "status_of_str s = find (\<lambda>x. status_str x = s) all_statuses"

fun mode_str :: "delivery_mode \<Rightarrow> string" where
  "mode_str Local = ''local''"
| "mode_str Interstate = ''interstate''"

definition mode_of_str :: "string \<Rightarrow> delivery_mode option" where
  "mode_of_str s = find (\<lambda>x. mode_str x = s) [Local, Interstate]"

text \<open>An order document, typed: the schema's paths, its \<open>_id\<close> and its timestamps.\<close>

record order =
  order_id :: oid
  buyerId :: "oid option"
  sellerId :: "oid option"
  riderId :: "oid option"
  productId :: "oid option"
  total :: "int option"
  status :: order_status
  deliveryMode :: "delivery_mode option"
  createdAt :: timestamp
  updatedAt :: timestamp

fun as_id :: "jval \<Rightarrow> oid option" where
  "as_id (JId i) = Some i"
| "as_id _ = None"

fun as_num :: "jval \<Rightarrow> int option" where
  "as_num (JNum n) = Some n"
| "as_num _ = None"

fun as_str :: "jval \<Rightarrow> string option" where
  "as_str (JStr s) = Some s"
| "as_str _ = None"

definition as_time :: "jval \<Rightarrow> timestamp option" where
  "as_time v = (case v of JNum n \<Rightarrow> if 0 \<le> n then Some (nat n) else None | _ \<Rightarrow> None)"

definition opt_field :: "(jval \<Rightarrow> 'a option) \<Rightarrow> jval option \<Rightarrow> 'a option option" where
  "opt_field f v = (case v of None \<Rightarrow> Some None | Some x \<Rightarrow> map_option Some (f x))"

definition order_of_doc :: "doc \<Rightarrow> order option" where
  "order_of_doc d = do {
     i \<leftarrow> d ''_id'' \<bind> as_id;
     b \<leftarrow> opt_field as_id (d ''buyerId'');
     s \<leftarrow> opt_field as_id (d ''sellerId'');
     r \<leftarrow> opt_field as_id (d ''riderId'');
     p \<leftarrow> opt_field as_id (d ''productId'');
     t \<leftarrow> opt_field as_num (d ''total'');
     st \<leftarrow> d ''status'' \<bind> as_str \<bind> status_of_str;
     m \<leftarrow> opt_field (\<lambda>v. as_str v \<bind> mode_of_str) (d ''deliveryMode'');
     c \<leftarrow> d ''createdAt'' \<bind> as_time;
     u \<leftarrow> d ''updatedAt'' \<bind> as_time;
     Some \<lparr>order_id = i, buyerId = b, sellerId = s, riderId = r, productId = p, total = t,
           status = st, deliveryMode = m, createdAt = c, updatedAt = u\<rparr>
   }"

subsection \<open>User.js\<close>

datatype role = Buyer | Seller | Rider | Admin

fun role_str :: "role \<Rightarrow> string" where
  "role_str Buyer = ''buyer''"
| "role_str Seller = ''seller''"
| "role_str Rider = ''rider''"
| "role_str Admin = ''admin''"

definition role_values :: "string list" where
  "role_values = [''buyer'', ''seller'', ''rider'', ''admin'']"

definition role_of_str :: "string \<Rightarrow> role option" where
  "role_of_str s = find (\<lambda>x. role_str x = s) [Buyer, Seller, Rider, Admin]"

definition userSchema :: schema where
  "userSchema =
     \<lparr>spaths =
        [(''name'', plain TString),
         (''email'', (plain TString)\<lparr>punique := True\<rparr>),
         (''phone'', plain TString),
         (''password'', plain TString),
         (''role'', (plain TString)\<lparr>penum := role_values\<rparr>),
         (''bvn'', plain TString),
         (''nin'', plain TString),
         (''verified'', (plain TBoolean)\<lparr>pdefault := Some (JBool False)\<rparr>),
         (''location'', plain TString),
         (''rating'', (plain TNumber)\<lparr>pdefault := Some (JNum 0)\<rparr>)],
      stimestamps = True\<rparr>"

subsection \<open>Product.js\<close>

definition productSchema :: schema where
  "productSchema =
     \<lparr>spaths =
        [(''sellerId'', ref_to ''User''),
         (''name'', plain TString),
         (''category'', plain TString),
         (''description'', plain TString),
         (''images'', plain TStringArray),
         (''price'', plain TNumber),
         (''stock'', plain TNumber),
         (''location'', plain TString)],
      stimestamps = True\<rparr>"

lemmas schema_defs [model_defs] = orderSchema_def userSchema_def productSchema_def
  order_status_values_def delivery_mode_values_def role_values_def

lemmas doc_eval = mg_new_def plain_def ref_to_def check_path_def initial_value_def
  stamp_def opt_field_def as_time_def status_of_str_def all_statuses_def mode_of_str_def
  order_of_doc_def schema_defs

subsection \<open>Encodings of the enumerations\<close>

lemma status_strs: "map status_str all_statuses = order_status_values"
  by (simp add: all_statuses_def order_status_values_def)

lemma status_of_str_status_str [simp]: "status_of_str (status_str x) = Some x"
  by (cases x) (simp_all add: status_of_str_def all_statuses_def)

lemma status_of_str_Some: "status_of_str s = Some x \<Longrightarrow> status_str x = s"
  by (auto simp: status_of_str_def dest: find_Some_iff [THEN iffD1])

lemma status_of_str_defined: "(status_of_str s \<noteq> None) = (s \<in> set order_status_values)"
  by (auto simp: status_of_str_def find_None_iff all_statuses_def order_status_values_def)

lemma mode_of_str_mode_str [simp]: "mode_of_str (mode_str x) = Some x"
  by (cases x) (simp_all add: mode_of_str_def)

lemma mode_of_str_defined: "(mode_of_str s \<noteq> None) = (s \<in> set delivery_mode_values)"
  by (auto simp: mode_of_str_def find_None_iff delivery_mode_values_def)

lemma role_of_str_role_str [simp]: "role_of_str (role_str x) = Some x"
  by (cases x) (simp_all add: role_of_str_def)

lemma role_of_str_defined: "(role_of_str s \<noteq> None) = (s \<in> set role_values)"
  by (auto simp: role_of_str_def find_None_iff role_values_def)

lemma reserved_ok_schemas: "reserved_ok orderSchema" "reserved_ok userSchema" "reserved_ok productSchema"
  by (simp_all add: reserved_ok_def schema_defs plain_def ref_to_def)

subsection \<open>Order documents\<close>

lemma conforms_path:
  "conforms sch d \<Longrightarrow> (p, po) \<in> set (spaths sch) \<Longrightarrow>
   case d p of None \<Rightarrow> pdefault po = None \<and> ptype po \<noteq> TStringArray | Some v \<Rightarrow> value_fits po v"
  by (auto simp: conforms_def list_all_iff)

lemma id_path_field:
  "(case v of None \<Rightarrow> pdefault (ref_to m) = None \<and> ptype (ref_to m) \<noteq> TStringArray
             | Some x \<Rightarrow> value_fits (ref_to m) x) \<Longrightarrow> opt_field as_id v \<noteq> None"
proof (cases v)
  case (Some x)
  moreover assume "case v of None \<Rightarrow> pdefault (ref_to m) = None \<and> ptype (ref_to m) \<noteq> TStringArray
             | Some x \<Rightarrow> value_fits (ref_to m) x"
  ultimately show ?thesis by (cases x) (auto simp: opt_field_def value_fits_def ref_to_def plain_def)
qed (simp add: opt_field_def)

lemma num_path_field:
  "(case v of None \<Rightarrow> pdefault (plain TNumber) = None \<and> ptype (plain TNumber) \<noteq> TStringArray
             | Some x \<Rightarrow> value_fits (plain TNumber) x) \<Longrightarrow> opt_field as_num v \<noteq> None"
proof (cases v)
  case (Some x)
  moreover assume "case v of None \<Rightarrow> pdefault (plain TNumber) = None \<and> ptype (plain TNumber) \<noteq> TStringArray
             | Some x \<Rightarrow> value_fits (plain TNumber) x"
  ultimately show ?thesis by (cases x) (auto simp: opt_field_def value_fits_def plain_def)
qed (simp add: opt_field_def)

lemma conforms_order_fields:
  assumes c: "conforms orderSchema d"
  shows "opt_field as_id (d ''buyerId'') \<noteq> None" "opt_field as_id (d ''sellerId'') \<noteq> None"
    "opt_field as_id (d ''riderId'') \<noteq> None" "opt_field as_id (d ''productId'') \<noteq> None"
    "opt_field as_num (d ''total'') \<noteq> None"
    "\<exists>s. d ''status'' = Some (JStr s) \<and> s \<in> set order_status_values"
    "opt_field (\<lambda>v. as_str v \<bind> mode_of_str) (d ''deliveryMode'') \<noteq> None"
    "\<exists>i. d ''_id'' = Some (JId i)"
proof -
  note p = conforms_path [OF c]
  show "opt_field as_id (d ''buyerId'') \<noteq> None"
    by (rule id_path_field, rule p) (simp add: orderSchema_def)
  show "opt_field as_id (d ''sellerId'') \<noteq> None"
    by (rule id_path_field, rule p) (simp add: orderSchema_def)
  show "opt_field as_id (d ''riderId'') \<noteq> None"
    by (rule id_path_field, rule p) (simp add: orderSchema_def)
  show "opt_field as_id (d ''productId'') \<noteq> None"
    by (rule id_path_field, rule p) (simp add: orderSchema_def)
  show "opt_field as_num (d ''total'') \<noteq> None"
    by (rule num_path_field, rule p) (simp add: orderSchema_def)
  have st: "case d ''status'' of None \<Rightarrow> False
     | Some v \<Rightarrow> value_fits ((plain TString)\<lparr>penum := order_status_values, pdefault := Some (JStr ''pending'')\<rparr>) v"
    using p [of "''status''"] by (simp add: orderSchema_def plain_def split: option.splits)
  then show "\<exists>s. d ''status'' = Some (JStr s) \<and> s \<in> set order_status_values"
    by (auto simp: value_fits_def order_status_values_def split: option.splits)
  have dm: "case d ''deliveryMode'' of None \<Rightarrow> True
     | Some v \<Rightarrow> value_fits ((plain TString)\<lparr>penum := delivery_mode_values\<rparr>) v"
    using p [of "''deliveryMode''"] by (simp add: orderSchema_def plain_def split: option.splits)
  then show "opt_field (\<lambda>v. as_str v \<bind> mode_of_str) (d ''deliveryMode'') \<noteq> None"
    by (auto simp: value_fits_def opt_field_def mode_of_str_def delivery_mode_values_def
        split: option.splits)
  show "\<exists>i. d ''_id'' = Some (JId i)"
    using c by (simp add: conforms_def)
qed

text \<open>
  C10. Every order document that Mongoose creates from a request body under the schema of
  \<open>Order.js\<close> is a well-typed order: it decodes to an \<open>order\<close> record whose
  identifier is the fresh \<open>_id\<close> and whose timestamps are the creation time.
\<close>

theorem created_order_decodes:
  assumes new: "mg_new orderSchema raw fresh now = Inr d"
  shows "\<exists>r. order_of_doc d = Some r \<and> order_id r = fresh \<and> createdAt r = now \<and> updatedAt r = now"
proof -
  have c: "conforms orderSchema d"
    using reserved_ok_schemas(1) new by (rule mg_new_conforms)
  have ts: "d ''_id'' = Some (JId fresh)" "d ''createdAt'' = Some (JNum (int now))"
    "d ''updatedAt'' = Some (JNum (int now))"
    using mg_new_stamps [OF new] by (simp_all add: orderSchema_def)
  note f = conforms_order_fields [OF c]
  obtain b where b: "opt_field as_id (d ''buyerId'') = Some b" using f(1) by blast
  obtain s where s: "opt_field as_id (d ''sellerId'') = Some s" using f(2) by blast
  obtain rr where rr: "opt_field as_id (d ''riderId'') = Some rr" using f(3) by blast
  obtain p where p: "opt_field as_id (d ''productId'') = Some p" using f(4) by blast
  obtain t where t: "opt_field as_num (d ''total'') = Some t" using f(5) by blast
  obtain st where st: "d ''status'' = Some (JStr st)" "st \<in> set order_status_values" using f(6) by blast
  obtain x where x: "status_of_str st = Some x" using st(2) status_of_str_defined by blast
  obtain m where m: "opt_field (\<lambda>v. as_str v \<bind> mode_of_str) (d ''deliveryMode'') = Some m"
    using f(7) by blast
  show ?thesis
    by (simp add: order_of_doc_def ts b s rr p t st x m as_time_def)
qed

theorem created_order_decodes_witness:
  "\<exists>d r. mg_new orderSchema [''buyerId'' \<mapsto> JId 1, ''total'' \<mapsto> JNum 800] 3 10 = Inr d \<and>
     order_of_doc d = Some r \<and> order_id r = 3 \<and> createdAt r = 10 \<and> updatedAt r = 10"
proof -
  have "\<exists>d. mg_new orderSchema [''buyerId'' \<mapsto> JId 1, ''total'' \<mapsto> JNum 800] 3 10 = Inr d"
    by (simp add: doc_eval)
  then obtain d where d: "mg_new orderSchema [''buyerId'' \<mapsto> JId 1, ''total'' \<mapsto> JNum 800] 3 10 = Inr d"
    by blast
  show ?thesis using created_order_decodes [OF d] d by blast
qed

text \<open>
  C11. An order created without a \<open>status\<close> gets the schema's default: its stored
  status is the string \<open>"pending"\<close>.
\<close>

theorem order_status_defaults_pending:
  assumes "raw ''status'' = None" and "mg_new orderSchema raw fresh now = Inr d"
  shows "d ''status'' = Some (JStr ''pending'')"
proof -
  have "d ''status'' = snd (check_path ''status''
      ((plain TString)\<lparr>penum := order_status_values, pdefault := Some (JStr ''pending'')\<rparr>) (raw ''status''))"
    using reserved_ok_schemas(1) assms(2) by (rule mg_new_lookup) (simp add: orderSchema_def)
  then show ?thesis
    using assms(1) by (simp add: check_path_def initial_value_def plain_def order_status_values_def)
qed

theorem order_status_defaults_pending_witness:
  "\<exists>d. mg_new orderSchema [''total'' \<mapsto> JNum 800] 3 10 = Inr d \<and> d ''status'' = Some (JStr ''pending'')"
proof -
  have "\<exists>d. mg_new orderSchema [''total'' \<mapsto> JNum 800] 3 10 = Inr d"
    by (simp add: doc_eval)
  then obtain d where d: "mg_new orderSchema [''total'' \<mapsto> JNum 800] 3 10 = Inr d"
    by blast
  have "([''total'' \<mapsto> JNum 800] :: doc) ''status'' = None" by simp
  from order_status_defaults_pending [OF this d] d show ?thesis by blast
qed

text \<open>
  C12. A status outside the enumeration of \<open>Order.js\<close> is rejected: creation fails with
  a validation error that names the \<open>status\<close> path.
\<close>

theorem order_status_enum_rejects:
  assumes "raw ''status'' = Some (JStr s)" and "s \<notin> set order_status_values"
  shows "\<exists>es. mg_new orderSchema raw fresh now = Inl es \<and> EnumError ''status'' \<in> set es"
proof (rule mg_new_error)
  show "(''status'', (plain TString)\<lparr>penum := order_status_values, pdefault := Some (JStr ''pending'')\<rparr>)
        \<in> set (spaths orderSchema)" by (simp add: orderSchema_def)
  show "EnumError ''status'' \<in> set (fst (check_path ''status''
      ((plain TString)\<lparr>penum := order_status_values, pdefault := Some (JStr ''pending'')\<rparr>) (raw ''status'')))"
    using assms by (auto simp: check_path_def initial_value_def plain_def order_status_values_def)
qed

theorem order_status_enum_rejects_witness:
  "\<exists>es. mg_new orderSchema [''status'' \<mapsto> JStr ''shipped''] 3 10 = Inl es \<and> EnumError ''status'' \<in> set es"
proof -
  have "([''status'' \<mapsto> JStr ''shipped''] :: doc) ''status'' = Some (JStr ''shipped'')" by simp
  moreover have "''shipped'' \<notin> set order_status_values" by (simp add: order_status_values_def)
  ultimately show ?thesis by (rule order_status_enum_rejects)
qed

theorem orderSchema_accepts_negative_total:
  "\<exists>d r. mg_new orderSchema [''total'' \<mapsto> JNum (-5)] 1 0 = Inr d \<and> order_of_doc d = Some r \<and> total r = Some (-5)"
  by (simp add: mg_new_def orderSchema_def order_of_doc_def plain_def ref_to_def check_path_def
      initial_value_def order_status_values_def stamp_def opt_field_def as_time_def status_of_str_def
      all_statuses_def)

end
