(* ===== verification/OrderLifecycle.thy ===== *)
theory OrderLifecycle
  imports Models
begin

text \<open>
  The order lifecycle engine of the spec (sections 4.1, 6 and 7). The repository contains
  only the schema of an order (\<open>models/Order.js\<close>); the transition logic would live
  in the route and controller modules that \<open>server.js\<close> mounts
  (\<open>routes/buyerRoutes.js\<close>, \<open>sellerRoutes.js\<close>, \<open>riderRoutes.js\<close>,
  \<open>adminRoutes.js\<close>), which are not in the snapshot, so the operations here are modelled
  from the spec. They act on the typed \<open>order\<close> record of theory \<open>Models\<close>, so every
  result is an order document of the repository's schema.
  Each operation takes the clock value \<open>now\<close>, the acting user (role of \<open>User.js\<close>
  and identity) and the order snapshot, and returns the new snapshot or a typed error;
  the checks are made in the order: state, assignment (for \<open>assign\<close>), role.
\<close>

datatype order_error = InvalidTransition | Unauthorized | InvalidAssignment | ConflictRetryable

record actor =
  act_role :: role
  act_id :: oid

datatype request = Assign "oid option" | Pick | Deliver | Cancel

definition create_order ::
  "oid \<Rightarrow> oid option \<Rightarrow> oid option \<Rightarrow> oid option \<Rightarrow> int option \<Rightarrow> delivery_mode option \<Rightarrow> timestamp \<Rightarrow> order" where
  "create_order i b s p t m now =
     \<lparr>order_id = i, buyerId = b, sellerId = s, riderId = None, productId = p, total = t,
      status = Pending, deliveryMode = m, createdAt = now, updatedAt = now\<rparr>"

definition assign :: "timestamp \<Rightarrow> actor \<Rightarrow> oid option \<Rightarrow> order \<Rightarrow> order_error + order" where
  "assign now a r ord =
     (if status ord \<noteq> Pending then Inl InvalidTransition
      else case r of
        None \<Rightarrow> Inl InvalidAssignment
      | Some rid \<Rightarrow>
          if Some rid = buyerId ord \<or> Some rid = sellerId ord then Inl InvalidAssignment
          else if act_role a \<notin> {Seller, Admin} then Inl Unauthorized
          else Inr (ord\<lparr>status := Assigned, riderId := Some rid, updatedAt := now\<rparr>))"

definition is_assigned_rider :: "actor \<Rightarrow> order \<Rightarrow> bool" where
  "is_assigned_rider a ord = (act_role a = Rider \<and> riderId ord = Some (act_id a))"

definition pick :: "timestamp \<Rightarrow> actor \<Rightarrow> order \<Rightarrow> order_error + order" where
  "pick now a ord =
     (if status ord \<noteq> Assigned then Inl InvalidTransition
      else if \<not> is_assigned_rider a ord then Inl Unauthorized
      else Inr (ord\<lparr>status := Picked, updatedAt := now\<rparr>))"

definition deliver :: "timestamp \<Rightarrow> actor \<Rightarrow> order \<Rightarrow> order_error + order" where
  "deliver now a ord =
     (if status ord \<noteq> Picked then Inl InvalidTransition
      else if \<not> is_assigned_rider a ord then Inl Unauthorized
      else Inr (ord\<lparr>status := Delivered, updatedAt := now\<rparr>))"

definition cancel :: "timestamp \<Rightarrow> actor \<Rightarrow> order \<Rightarrow> order_error + order" where
  "cancel now a ord =
     (if status ord \<notin> {Pending, Assigned, Picked} then Inl InvalidTransition
      else if act_role a \<notin> {Buyer, Seller, Admin} then Inl Unauthorized
      else Inr (ord\<lparr>status := Cancelled, riderId := None, updatedAt := now\<rparr>))"

fun engine :: "timestamp \<Rightarrow> actor \<Rightarrow> request \<Rightarrow> order \<Rightarrow> order_error + order" where
  "engine now a (Assign r) ord = assign now a r ord"
| "engine now a Pick ord = pick now a ord"
| "engine now a Deliver ord = deliver now a ord"
| "engine now a Cancel ord = cancel now a ord"

text \<open>A caller's sequence of requests against one snapshot, stopping at the first error.\<close>

fun run :: "(timestamp \<times> actor \<times> request) list \<Rightarrow> order \<Rightarrow> order_error + order" where
  "run [] ord = Inr ord"
| "run ((now, a, req) # rs) ord =
     (case engine now a req ord of Inl e \<Rightarrow> Inl e | Inr ord' \<Rightarrow> run rs ord')"

subsection \<open>The abstract status graph of the spec\<close>

inductive status_edge :: "order_status \<Rightarrow> order_status \<Rightarrow> bool" where
  assign_edge: "status_edge Pending Assigned"
| pick_edge: "status_edge Assigned Picked"
| deliver_edge: "status_edge Picked Delivered"
| cancel_pending: "status_edge Pending Cancelled"
| cancel_assigned: "status_edge Assigned Cancelled"
| cancel_picked: "status_edge Picked Cancelled"

code_pred status_edge .

definition terminal :: "order_status \<Rightarrow> bool" where
  "terminal s = (s = Delivered \<or> s = Cancelled)"

subsection \<open>Invariant and reachable orders\<close>

definition rider_consistent :: "order \<Rightarrow> bool" where
  "rider_consistent ord = ((riderId ord = None) = (status ord = Pending \<or> status ord = Cancelled))"

definition rider_not_party :: "order \<Rightarrow> bool" where
  "rider_not_party ord = (riderId ord = None \<or> (riderId ord \<noteq> buyerId ord \<and> riderId ord \<noteq> sellerId ord))"

inductive reachable :: "order \<Rightarrow> bool" where
  created: "reachable (create_order i b s p t m now)"
| step: "reachable ord \<Longrightarrow> engine now a req ord = Inr ord' \<Longrightarrow> reachable ord'"

subsection \<open>The data of the spec's scenario (section 8)\<close>

definition sample_order :: order where
  "sample_order = create_order 1 (Some 11) (Some 12) (Some 13) (Some 800) (Some Local) 0"

definition seller_S1 :: actor where "seller_S1 = \<lparr>act_role = Seller, act_id = 12\<rparr>"

definition buyer_B1 :: actor where "buyer_B1 = \<lparr>act_role = Buyer, act_id = 11\<rparr>"

definition rider_of :: "oid \<Rightarrow> actor" where "rider_of r = \<lparr>act_role = Rider, act_id = r\<rparr>"

lemmas sample_defs = sample_order_def seller_S1_def buyer_B1_def rider_of_def

lemmas op_defs [model_defs] = create_order_def assign_def is_assigned_rider_def pick_def deliver_def
  cancel_def terminal_def rider_consistent_def rider_not_party_def

inductive_simps status_edge_simps: "status_edge s t"

subsection \<open>One step\<close>

lemma engine_Inr_cases:
  assumes "engine now a req ord = Inr ord'"
  obtains (assign) rid where "req = Assign (Some rid)" "status ord = Pending" "act_role a \<in> {Seller, Admin}"
      "Some rid \<noteq> buyerId ord" "Some rid \<noteq> sellerId ord"
      "ord' = ord\<lparr>status := Assigned, riderId := Some rid, updatedAt := now\<rparr>"
  | (pick) "req = Pick" "status ord = Assigned" "is_assigned_rider a ord"
      "ord' = ord\<lparr>status := Picked, updatedAt := now\<rparr>"
  | (deliver) "req = Deliver" "status ord = Picked" "is_assigned_rider a ord"
      "ord' = ord\<lparr>status := Delivered, updatedAt := now\<rparr>"
  | (cancel) "req = Cancel" "status ord \<in> {Pending, Assigned, Picked}" "act_role a \<in> {Buyer, Seller, Admin}"
      "ord' = ord\<lparr>status := Cancelled, riderId := None, updatedAt := now\<rparr>"
  using assms
  by (cases req) (auto simp: assign_def pick_def deliver_def cancel_def split: if_splits option.splits)

lemma engine_step_consistent: "engine now a req ord = Inr ord' \<Longrightarrow> rider_consistent ord \<Longrightarrow> rider_consistent ord'"
  by (erule engine_Inr_cases) (auto simp: rider_consistent_def is_assigned_rider_def)

lemma engine_step_not_party: "engine now a req ord = Inr ord' \<Longrightarrow> rider_not_party ord \<Longrightarrow> rider_not_party ord'"
  by (erule engine_Inr_cases) (auto simp: rider_not_party_def)

lemma engine_step_edge: "engine now a req ord = Inr ord' \<Longrightarrow> status_edge (status ord) (status ord')"
  by (erule engine_Inr_cases) (auto intro: status_edge.intros)

lemma engine_step_frame:
  "engine now a req ord = Inr ord' \<Longrightarrow>
   order_id ord' = order_id ord \<and> buyerId ord' = buyerId ord \<and> sellerId ord' = sellerId ord \<and>
   productId ord' = productId ord \<and> total ord' = total ord \<and> deliveryMode ord' = deliveryMode ord \<and>
   createdAt ord' = createdAt ord \<and> updatedAt ord' = now"
  by (erule engine_Inr_cases) auto

lemma terminal_no_edge: "terminal s \<Longrightarrow> \<not> status_edge s t"
  by (auto simp: terminal_def status_edge_simps)

subsection \<open>Properties of the lifecycle\<close>

text \<open>
  C1. In every order reachable from creation through accepted transitions, the rider is absent exactly when the status is pending or cancelled, and an assigned rider is never the order's buyer or seller.
\<close>

theorem reachable_invariant: "reachable ord \<Longrightarrow> rider_consistent ord \<and> rider_not_party ord"
proof (induction rule: reachable.induct)
  case (created i b s p t m now)
  show ?case by (simp add: create_order_def rider_consistent_def rider_not_party_def)
next
  case (step ord now a req ord')
  then show ?case using engine_step_consistent engine_step_not_party by blast
qed

lemma reachable_assigned_sample:
  "reachable (sample_order\<lparr>status := Assigned, riderId := Some 21, updatedAt := 5\<rparr>)"
proof (rule reachable.step)
  show "reachable sample_order" unfolding sample_order_def by (rule reachable.created)
  show "engine 5 seller_S1 (Assign (Some 21)) sample_order =
        Inr (sample_order\<lparr>status := Assigned, riderId := Some 21, updatedAt := 5\<rparr>)"
    by (simp add: sample_defs op_defs)
qed

theorem reachable_invariant_witness:
  "rider_consistent (sample_order\<lparr>status := Assigned, riderId := Some 21, updatedAt := 5\<rparr>) \<and>
   rider_not_party (sample_order\<lparr>status := Assigned, riderId := Some 21, updatedAt := 5\<rparr>)"
  using reachable_invariant [OF reachable_assigned_sample] .

text \<open>
  C2. No transition leaves a delivered or cancelled order: every request on it fails with InvalidTransition.
\<close>

theorem terminal_rejects_all: "terminal (status ord) \<Longrightarrow> engine now a req ord = Inl InvalidTransition"
  by (cases req) (auto simp: op_defs)

theorem terminal_rejects_all_witness:
  "engine 9 buyer_B1 Cancel (sample_order\<lparr>status := Delivered, riderId := Some 21\<rparr>) = Inl InvalidTransition"
  by (rule terminal_rejects_all) (simp add: terminal_def)

text \<open>
  C4. Assigning a rider who is neither buyer nor seller (by a seller or an admin), then pick and deliver by that rider, takes a fresh order to delivered with the rider unchanged since the assignment.
\<close>

theorem happy_path:
  assumes "Some r \<noteq> b" and "Some r \<noteq> s" and "act_role sa \<in> {Seller, Admin}"
  shows "run [(t1, sa, Assign (Some r)), (t2, rider_of r, Pick), (t3, rider_of r, Deliver)]
           (create_order i b s p tot m t0)
         = Inr ((create_order i b s p tot m t0)\<lparr>status := Delivered, riderId := Some r, updatedAt := t3\<rparr>)"
  using assms by (auto simp: op_defs rider_of_def)

theorem happy_path_witness:
  "run [(1, seller_S1, Assign (Some 21)), (2, rider_of 21, Pick), (3, rider_of 21, Deliver)]
      (create_order 1 (Some 11) (Some 12) (Some 13) (Some 800) (Some Local) 0)
   = Inr ((create_order 1 (Some 11) (Some 12) (Some 13) (Some 800) (Some Local) 0)
            \<lparr>status := Delivered, riderId := Some 21, updatedAt := 3\<rparr>)"
  by (rule happy_path) (simp_all add: seller_S1_def)

text \<open>
  C5. Cancel succeeds exactly when the order is pending, assigned or picked and the actor is a buyer, a seller or an admin.
\<close>

theorem cancel_legal_iff:
  "(\<exists>ord'. cancel now a ord = Inr ord') =
   (status ord \<in> {Pending, Assigned, Picked} \<and> act_role a \<in> {Buyer, Seller, Admin})"
  by (auto simp: cancel_def)

text \<open>
  C6. On a pending order, assigning the order's buyer or seller as rider fails with InvalidAssignment, whatever the actor's role.
\<close>

theorem assign_party_rider_rejected:
  "status ord = Pending \<Longrightarrow> Some r = buyerId ord \<or> Some r = sellerId ord \<Longrightarrow>
   assign now a (Some r) ord = Inl InvalidAssignment"
  by (auto simp: assign_def)

theorem assign_party_rider_rejected_witness:
  "assign 5 \<lparr>act_role = Admin, act_id = 99\<rparr> (Some 11) sample_order = Inl InvalidAssignment"
  by (rule assign_party_rider_rejected) (simp_all add: sample_defs op_defs)

text \<open>
  C7. Pick on an assigned order and deliver on a picked order fail with Unauthorized when the caller's identity is not the stored rider, even for the rider role.
\<close>

theorem other_rider_unauthorized:
  "riderId ord \<noteq> Some (act_id a) \<Longrightarrow>
   (status ord = Assigned \<longrightarrow> pick now a ord = Inl Unauthorized) \<and>
   (status ord = Picked \<longrightarrow> deliver now a ord = Inl Unauthorized)"
  by (auto simp: pick_def deliver_def is_assigned_rider_def)

theorem other_rider_unauthorized_witness:
  "pick 6 (rider_of 22) (sample_order\<lparr>status := Assigned, riderId := Some 21\<rparr>) = Inl Unauthorized \<and>
   deliver 6 (rider_of 22) (sample_order\<lparr>status := Picked, riderId := Some 21\<rparr>) = Inl Unauthorized"
proof -
  have "riderId (sample_order\<lparr>status := Assigned, riderId := Some 21\<rparr>) \<noteq> Some (act_id (rider_of 22))"
    by (simp add: rider_of_def)
  from other_rider_unauthorized [OF this] have p: "pick 6 (rider_of 22) (sample_order\<lparr>status := Assigned, riderId := Some 21\<rparr>) = Inl Unauthorized"
    by simp
  have "riderId (sample_order\<lparr>status := Picked, riderId := Some 21\<rparr>) \<noteq> Some (act_id (rider_of 22))"
    by (simp add: rider_of_def)
  from other_rider_unauthorized [OF this] have "deliver 6 (rider_of 22) (sample_order\<lparr>status := Picked, riderId := Some 21\<rparr>) = Inl Unauthorized"
    by simp
  with p show ?thesis by simp
qed

lemma realise_edge:
  "reachable ord \<Longrightarrow> status ord = s \<Longrightarrow> engine now a req ord = Inr ord' \<Longrightarrow> status ord' = t \<Longrightarrow>
   \<exists>ord a req ord'. reachable ord \<and> status ord = s \<and> engine now a req ord = Inr ord' \<and> status ord' = t"
  by blast

text \<open>
  C3. Refinement: a status change s to t is made by some accepted transition of some reachable order exactly when s to t is an edge of the spec's status graph.
\<close>

theorem engine_implements_status_graph:
  "(\<exists>ord a req ord'. reachable ord \<and> status ord = s \<and> engine now a req ord = Inr ord' \<and> status ord' = t)
   = status_edge s t"
proof
  assume "\<exists>ord a req ord'. reachable ord \<and> status ord = s \<and> engine now a req ord = Inr ord' \<and> status ord' = t"
  then show "status_edge s t" by (auto dest: engine_step_edge)
next
  let ?p = "sample_order"
  let ?a = "?p\<lparr>status := Assigned, riderId := Some 21, updatedAt := 5\<rparr>"
  let ?k = "?a\<lparr>status := Picked, updatedAt := 6\<rparr>"
  have rp: "reachable ?p" unfolding sample_order_def by (rule reachable.created)
  have ra: "reachable ?a" by (rule reachable_assigned_sample)
  have rk: "reachable ?k"
    by (rule reachable.step [OF ra, of 6 "rider_of 21" Pick]) (simp add: op_defs rider_of_def)
  assume "status_edge s t"
  then show "\<exists>ord a req ord'. reachable ord \<and> status ord = s \<and> engine now a req ord = Inr ord' \<and> status ord' = t"
  proof cases
    case assign_edge
    from rp show ?thesis
      by (rule realise_edge [where a = seller_S1 and req = "Assign (Some 21)"]) (simp add: assign_edge sample_defs op_defs)+
  next
    case pick_edge
    from ra show ?thesis
      by (rule realise_edge [where a = "rider_of 21" and req = Pick]) (simp add: pick_edge sample_defs op_defs)+
  next
    case deliver_edge
    from rk show ?thesis
      by (rule realise_edge [where a = "rider_of 21" and req = Deliver]) (simp add: deliver_edge sample_defs op_defs)+
  next
    case cancel_pending
    from rp show ?thesis
      by (rule realise_edge [where a = buyer_B1 and req = Cancel]) (simp add: cancel_pending sample_defs op_defs)+
  next
    case cancel_assigned
    from ra show ?thesis
      by (rule realise_edge [where a = buyer_B1 and req = Cancel]) (simp add: cancel_assigned sample_defs op_defs)+
  next
    case cancel_picked
    from rk show ?thesis
      by (rule realise_edge [where a = buyer_B1 and req = Cancel]) (simp add: cancel_picked sample_defs op_defs)+
  qed
qed

text \<open>
  C8. A sequence of accepted transitions never changes an order's id, buyer, seller, product, total, delivery mode or creation time.
\<close>

theorem run_preserves_immutable:
  "run rs ord = Inr ord' \<Longrightarrow>
   order_id ord' = order_id ord \<and> buyerId ord' = buyerId ord \<and> sellerId ord' = sellerId ord \<and>
   productId ord' = productId ord \<and> total ord' = total ord \<and> deliveryMode ord' = deliveryMode ord \<and>
   createdAt ord' = createdAt ord"
proof (induction rs arbitrary: ord)
  case Nil
  then show ?case by simp
next
  case (Cons x rs)
  obtain now a req where x: "x = (now, a, req)" by (cases x)
  from Cons.prems x obtain ord1 where e: "engine now a req ord = Inr ord1" and r: "run rs ord1 = Inr ord'"
    by (auto split: sum.splits)
  from engine_step_frame [OF e] Cons.IH [OF r] show ?case by simp
qed

theorem run_preserves_immutable_witness:
  "order_id (create_order 1 (Some 11) (Some 12) (Some 13) (Some 800) (Some Local) 0\<lparr>status := Delivered, riderId := Some 21, updatedAt := 3\<rparr>) = 1 \<and>
   total (create_order 1 (Some 11) (Some 12) (Some 13) (Some 800) (Some Local) 0\<lparr>status := Delivered, riderId := Some 21, updatedAt := 3\<rparr>) = Some 800"
  using run_preserves_immutable [OF happy_path_witness] by (simp add: create_order_def)

lemma run_reachable: "reachable ord \<Longrightarrow> run rs ord = Inr ord' \<Longrightarrow> reachable ord'"
proof (induction rs arbitrary: ord)
  case Nil
  then show ?case by simp
next
  case (Cons x rs)
  obtain now a req where x: "x = (now, a, req)" by (cases x)
  from Cons.prems(2) x obtain ord1 where e: "engine now a req ord = Inr ord1" and r: "run rs ord1 = Inr ord'"
    by (auto split: sum.splits)
  from reachable.step [OF Cons.prems(1) e] r show ?case by (rule Cons.IH)
qed

text \<open>
  C9. The invariant of spec section 3, status pending exactly when no rider, does not
  hold: every accepted cancel of a reachable assigned or picked order clears the rider and
  yields a reachable cancelled order without a rider, which is not pending.
\<close>

theorem spec_pending_invariant_fails:
  assumes "reachable ord" and "status ord \<in> {Assigned, Picked}" and "engine now a Cancel ord = Inr ord'"
  shows "reachable ord' \<and> status ord' = Cancelled \<and> riderId ord' = None \<and>
         \<not> (status ord' = Pending \<longleftrightarrow> riderId ord' = None)"
proof -
  from assms(3) have "ord' = ord\<lparr>status := Cancelled, riderId := None, updatedAt := now\<rparr>"
    by (rule engine_Inr_cases) auto
  moreover from assms(1,3) have "reachable ord'" by (rule reachable.step)
  ultimately show ?thesis by simp
qed

theorem spec_pending_invariant_fails_witness:
  "reachable (sample_order\<lparr>status := Cancelled, riderId := None, updatedAt := 6\<rparr>) \<and>
   status (sample_order\<lparr>status := Cancelled, riderId := None, updatedAt := 6\<rparr>) = Cancelled \<and>
   riderId (sample_order\<lparr>status := Cancelled, riderId := None, updatedAt := 6\<rparr>) = None \<and>
   \<not> (status (sample_order\<lparr>status := Cancelled, riderId := None, updatedAt := 6\<rparr>) = Pending \<longleftrightarrow>
      riderId (sample_order\<lparr>status := Cancelled, riderId := None, updatedAt := 6\<rparr>) = None)"
proof (rule spec_pending_invariant_fails)
  show "reachable (sample_order\<lparr>status := Assigned, riderId := Some 21, updatedAt := 5\<rparr>)"
    by (rule reachable_assigned_sample)
  show "status (sample_order\<lparr>status := Assigned, riderId := Some 21, updatedAt := 5\<rparr>) \<in> {Assigned, Picked}"
    by simp
  show "engine 6 buyer_B1 Cancel (sample_order\<lparr>status := Assigned, riderId := Some 21, updatedAt := 5\<rparr>) =
        Inr (sample_order\<lparr>status := Cancelled, riderId := None, updatedAt := 6\<rparr>)"
    by (simp add: sample_defs op_defs)
qed

theorem assign_status_checked_first:
  "assign 7 seller_S1 (Some 11) (sample_order\<lparr>status := Delivered, riderId := Some 21\<rparr>) = Inl InvalidTransition"
  by (simp add: sample_defs op_defs)

lemma engine_never_conflict: "engine now a req ord \<noteq> Inl ConflictRetryable"
  by (cases req) (auto simp: op_defs split: option.splits)

end
