(* ===== verification/OrdersPage.thy ===== *)
theory OrdersPage
  imports Prelude
begin

text \<open>
  The orders management page (\<open>src/admin/src/app/orders/page.tsx\<close>): its sample data,
  the \<open>statusConfig\<close> lookup table, the page state kept by \<open>useState\<close>, the events
  that change it (the header's toggles, the search input, the status select), the
  derived \<open>filteredOrders\<close>, and what the page renders from a state: the theme classes
  that depend on \<open>isDarkMode\<close>, the stats cards, the filter controls and one row per
  filtered order. Looking up a status that \<open>statusConfig\<close> lacks reads a property of
  \<open>undefined\<close>, a \<open>TypeError\<close> that aborts the render; it is the error branch of
  \<open>order_row\<close>. Animation properties (framer-motion's \<open>initial\<close>, \<open>animate\<close>,
  \<open>transition\<close>) do not affect content and are not modelled.
\<close>

datatype icon = CheckCircle | Package | Truck | Clock | XCircle

record ui_order =
  uo_id :: string
  uo_customer :: string
  uo_email :: string
  uo_amount :: string
  uo_status :: string
  uo_date :: string
  uo_items :: nat
  uo_payment :: string

definition mk_order :: "string \<Rightarrow> string \<Rightarrow> string \<Rightarrow> string \<Rightarrow> string \<Rightarrow> string \<Rightarrow> nat \<Rightarrow> string \<Rightarrow> ui_order" where
  "mk_order i c e a s d n p =
     \<lparr>uo_id = i, uo_customer = c, uo_email = e, uo_amount = a, uo_status = s, uo_date = d,
      uo_items = n, uo_payment = p\<rparr>"

definition orders :: "ui_order list" where
  "orders =
     [mk_order ''ORD-2024-001'' ''Adebayo Johnson'' ''adebayo@email.com'' (naira @ ''15,230'') ''delivered'' ''2024-01-15'' 5 ''paid'',
      mk_order ''ORD-2024-002'' ''Bisi Adekoya'' ''bisi@email.com'' (naira @ ''8,750'') ''processing'' ''2024-01-15'' 3 ''paid'',
      mk_order ''ORD-2024-003'' ''Chukwu Okafor'' ''chukwu@email.com'' (naira @ ''22,180'') ''out-for-delivery'' ''2024-01-14'' 7 ''paid'',
      mk_order ''ORD-2024-004'' ''Folake Bello'' ''folake@email.com'' (naira @ ''3,420'') ''pending'' ''2024-01-14'' 2 ''pending'',
      mk_order ''ORD-2024-005'' ''Ibrahim Musa'' ''ibrahim@email.com'' (naira @ ''12,890'') ''delivered'' ''2024-01-13'' 4 ''paid'',
      mk_order ''ORD-2024-006'' ''Grace Eze'' ''grace@email.com'' (naira @ ''18,500'') ''cancelled'' ''2024-01-13'' 6 ''refunded'',
      mk_order ''ORD-2024-007'' ''Yusuf Bello'' ''yusuf@email.com'' (naira @ ''9,200'') ''processing'' ''2024-01-12'' 3 ''paid'',
      mk_order ''ORD-2024-008'' ''Amina Sani'' ''amina@email.com'' (naira @ ''25,600'') ''delivered'' ''2024-01-12'' 8 ''paid'']"

record status_style =
  ss_icon :: icon
  ss_bg :: string
  ss_text :: string
  ss_label :: string

definition statusConfig :: "(string \<times> status_style) list" where
  "statusConfig =
     [(''delivered'', \<lparr>ss_icon = CheckCircle, ss_bg = ''bg-green-500/20'', ss_text = ''text-green-500'', ss_label = ''DELIVERED''\<rparr>),
      (''processing'', \<lparr>ss_icon = Package, ss_bg = ''bg-blue-500/20'', ss_text = ''text-blue-500'', ss_label = ''PROCESSING''\<rparr>),
      (''out-for-delivery'', \<lparr>ss_icon = Truck, ss_bg = ''bg-orange-500/20'', ss_text = ''text-orange-500'', ss_label = ''OUT FOR DELIVERY''\<rparr>),
      (''pending'', \<lparr>ss_icon = Clock, ss_bg = ''bg-yellow-500/20'', ss_text = ''text-yellow-500'', ss_label = ''PENDING''\<rparr>),
      (''cancelled'', \<lparr>ss_icon = XCircle, ss_bg = ''bg-red-500/20'', ss_text = ''text-red-500'', ss_label = ''CANCELLED''\<rparr>)]"

subsection \<open>Page state and events\<close>

record page_state =
  isSidebarOpen :: bool
  isDarkMode :: bool
  searchQuery :: string
  selectedStatus :: string

definition page_init :: page_state where
  "page_init = \<lparr>isSidebarOpen = True, isDarkMode = True, searchQuery = [], selectedStatus = ''all''\<rparr>"

datatype page_event = ToggleSidebar | ToggleDark | SearchInput string | StatusSelect string

text \<open>
  \<open>ToggleSidebar\<close> and \<open>ToggleDark\<close> are the header's buttons, which call the setters
  the page passes down with the negated current value (\<open>Header.tsx\<close>, lines 16 and 36);
  \<open>SearchInput\<close> and \<open>StatusSelect\<close> are the \<open>onChange\<close> handlers of the input and
  the select (lines 103 and 110).
\<close>

fun page_step :: "page_state \<Rightarrow> page_event \<Rightarrow> page_state" where
  "page_step st ToggleSidebar = st\<lparr>isSidebarOpen := \<not> isSidebarOpen st\<rparr>"
| "page_step st ToggleDark = st\<lparr>isDarkMode := \<not> isDarkMode st\<rparr>"
| "page_step st (SearchInput v) = st\<lparr>searchQuery := v\<rparr>"
| "page_step st (StatusSelect v) = st\<lparr>selectedStatus := v\<rparr>"

definition status_options :: "string list" where
  "status_options = [''all'', ''pending'', ''processing'', ''out-for-delivery'', ''delivered'', ''cancelled'']"

inductive page_reachable :: "page_state \<Rightarrow> bool" where
  init: "page_reachable page_init"
| toggle_sidebar: "page_reachable st \<Longrightarrow> page_reachable (page_step st ToggleSidebar)"
| toggle_dark: "page_reachable st \<Longrightarrow> page_reachable (page_step st ToggleDark)"
| search: "page_reachable st \<Longrightarrow> page_reachable (page_step st (SearchInput v))"
| select: "page_reachable st \<Longrightarrow> v \<in> set status_options \<Longrightarrow> page_reachable (page_step st (StatusSelect v))"

subsection \<open>Filtering\<close>

definition matchesSearch :: "string \<Rightarrow> ui_order \<Rightarrow> bool" where
  "matchesSearch q ord =
     (js_includes (js_lower (uo_customer ord)) (js_lower q) \<or> js_includes (js_lower (uo_id ord)) (js_lower q))"

definition matchesStatus :: "string \<Rightarrow> ui_order \<Rightarrow> bool" where
  "matchesStatus sel ord = (sel = ''all'' \<or> uo_status ord = sel)"

definition filteredOrders :: "page_state \<Rightarrow> ui_order list" where
  "filteredOrders st = filter (\<lambda>ord. matchesSearch (searchQuery st) ord \<and> matchesStatus (selectedStatus st) ord) orders"

subsection \<open>Rendering\<close>

definition payment_class :: "string \<Rightarrow> string" where
  "payment_class p =
     (if p = ''paid'' then ''bg-green-500/20 text-green-500''
      else if p = ''pending'' then ''bg-yellow-500/20 text-yellow-500''
      else ''bg-gray-500/20 text-gray-500'')"

record order_row =
  row_id :: string
  row_initials :: string
  row_customer :: string
  row_email :: string
  row_amount :: string
  row_icon :: icon
  row_status_class :: string
  row_status_label :: string
  row_payment_class :: string
  row_payment_label :: string
  row_date :: string
  row_class :: string

definition order_row :: "bool \<Rightarrow> ui_order \<Rightarrow> js_error + order_row" where
  "order_row dark ord =
     (case map_of statusConfig (uo_status ord) of
        None \<Rightarrow> Inl (TypeError ''icon'')
      | Some sc \<Rightarrow>
          Inr \<lparr>row_id = uo_id ord, row_initials = initials (uo_customer ord),
               row_customer = uo_customer ord, row_email = uo_email ord, row_amount = uo_amount ord,
               row_icon = ss_icon sc, row_status_class = ss_bg sc @ '' '' @ ss_text sc,
               row_status_label = ss_label sc, row_payment_class = payment_class (uo_payment ord),
               row_payment_label = js_upper (uo_payment ord), row_date = uo_date ord,
               row_class = (if dark then ''border-gray-800 hover:bg-gray-800/30''
                            else ''border-gray-200 hover:bg-gray-50'')\<rparr>)"

fun render_rows :: "bool \<Rightarrow> ui_order list \<Rightarrow> js_error + order_row list" where
  "render_rows dark [] = Inr []"
| "render_rows dark (x # xs) =
     (case order_row dark x of
        Inl e \<Rightarrow> Inl e
      | Inr r \<Rightarrow> (case render_rows dark xs of Inl e \<Rightarrow> Inl e | Inr rs \<Rightarrow> Inr (r # rs)))"

record stat_card =
  sc_label :: string
  sc_value :: string
  sc_icon :: icon
  sc_color :: string

definition orders_stats :: "stat_card list" where
  "orders_stats =
     [\<lparr>sc_label = ''Total Orders'', sc_value = ''12,847'', sc_icon = Package, sc_color = ''blue''\<rparr>,
      \<lparr>sc_label = ''Pending'', sc_value = ''234'', sc_icon = Clock, sc_color = ''yellow''\<rparr>,
      \<lparr>sc_label = ''Processing'', sc_value = ''567'', sc_icon = Truck, sc_color = ''orange''\<rparr>,
      \<lparr>sc_label = ''Delivered'', sc_value = ''11,890'', sc_icon = CheckCircle, sc_color = ''green''\<rparr>]"

record page_view =
  pv_root_class :: string
  pv_sidebar :: bool
  pv_heading_class :: string
  pv_heading :: string
  pv_subtitle_class :: string
  pv_card_class :: string
  pv_stats :: "stat_card list"
  pv_stat_value_class :: string
  pv_search_value :: string
  pv_select_value :: string
  pv_options :: "string list"
  pv_rows :: "order_row list"

definition orders_page_view :: "page_state \<Rightarrow> js_error + page_view" where
  "orders_page_view st =
     (let dark = isDarkMode st in
      case render_rows dark (filteredOrders st) of
        Inl e \<Rightarrow> Inl e
      | Inr rows \<Rightarrow>
          Inr \<lparr>pv_root_class = ''min-h-screen '' @ (if dark then ''bg-black'' else ''bg-gray-50'') @ '' flex'',
               pv_sidebar = isSidebarOpen st,
               pv_heading_class = ''text-3xl font-bold text-white mb-2'',
               pv_heading = ''Orders Management'',
               pv_subtitle_class = (if dark then ''text-gray-400'' else ''text-gray-600''),
               pv_card_class = (if dark then ''bg-gray-900 border-gray-800'' else ''bg-white border-gray-200''),
               pv_stats = orders_stats, pv_stat_value_class = ''text-2xl font-bold text-white'',
               pv_search_value = searchQuery st,
               pv_select_value = selectedStatus st, pv_options = status_options, pv_rows = rows\<rparr>)"

lemmas page_defs [model_defs] = page_init_def matchesSearch_def matchesStatus_def filteredOrders_def
  initials_def payment_class_def order_row_def orders_page_view_def status_options_def

subsection \<open>Properties of the page\<close>

lemma page_reachable_selected: "page_reachable st \<Longrightarrow> selectedStatus st \<in> set status_options"
  by (induction rule: page_reachable.induct) (simp_all add: page_init_def status_options_def)

lemma filter_subseq_mono: "(\<And>x. P x \<Longrightarrow> Q x) \<Longrightarrow> subseq (filter P xs) (filter Q xs)"
  by (induction xs) auto

lemma statuses_configured: "\<forall>ord \<in> set orders. map_of statusConfig (uo_status ord) \<noteq> None"
  by (simp add: orders_def statusConfig_def mk_order_def)

lemma render_rows_ok:
  "\<forall>x \<in> set xs. map_of statusConfig (uo_status x) \<noteq> None \<Longrightarrow>
   \<exists>rs. render_rows dark xs = Inr rs \<and> map row_id rs = map uo_id xs"
  by (induction xs) (auto simp: order_row_def split: option.splits)

text \<open>
  C13. The orders page renders in every state: each filtered order has a statusConfig entry, so the render never reads a property of undefined, and it shows one row per filtered order, in order.
\<close>

theorem orders_page_never_throws:
  "\<exists>v. orders_page_view st = Inr v \<and> map row_id (pv_rows v) = map uo_id (filteredOrders st) \<and>
       pv_sidebar v = isSidebarOpen st"
proof -
  have "\<forall>x \<in> set (filteredOrders st). map_of statusConfig (uo_status x) \<noteq> None"
    using statuses_configured by (simp add: filteredOrders_def)
  then obtain rs where "render_rows (isDarkMode st) (filteredOrders st) = Inr rs"
    and "map row_id rs = map uo_id (filteredOrders st)"
    using render_rows_ok by blast
  then show ?thesis by (simp add: orders_page_view_def Let_def)
qed

text \<open>
  C14. Refining the search query (any query containing the previous one) only removes orders from the list, keeping their order.
\<close>

theorem longer_query_narrows:
  "sublist q q' \<Longrightarrow>
   subseq (filteredOrders (st\<lparr>searchQuery := q'\<rparr>)) (filteredOrders (st\<lparr>searchQuery := q\<rparr>))"
proof -
  assume sub: "sublist q q'"
  then have low: "sublist (js_lower q) (js_lower q')"
    by (auto simp: sublist_def js_lower_def) (metis map_append)
  show ?thesis
    unfolding filteredOrders_def
    by (rule filter_subseq_mono) (auto simp: matchesSearch_def intro: sublist_order.order_trans [OF low])
qed

theorem longer_query_narrows_witness:
  "subseq (filteredOrders (page_init\<lparr>searchQuery := ''Bello''\<rparr>)) (filteredOrders (page_init\<lparr>searchQuery := ''ell''\<rparr>))"
  by (rule longer_query_narrows) (simp add: sublist_code)

end
