(* ===== verification/UserAuth.thy ===== *)
theory UserAuth
  imports Models
begin

text \<open>
  The password handling of \<open>src/smartlink-backend/models/User.js\<close>: the in_memory method
  \<open>matchPassword\<close> (lines 17-19) and the \<open>pre("save")\<close> hook (lines 21-25), on a
  Mongoose document that records which paths were modified since it was loaded.

  bcryptjs is abstracted as follows. \<open>genSalt(10)\<close> yields a salt string of 29
  characters (\<open>$2a$10$\<close> and 22 characters), the parameter \<open>salt\<close> of the hook;
  \<open>hash(pw, salt)\<close> is the salt followed by a digest \<open>H salt pw\<close>, where \<open>H\<close> is
  any function (a parameter of every definition); \<open>compare(pw, h)\<close> recomputes the hash
  of \<open>pw\<close> with the salt read from the first 29 characters of \<open>h\<close>. A missing
  password makes \<open>hash\<close> and \<open>compare\<close> reject with "Illegal arguments".

  The hook is an \<open>async\<close> function that also takes \<open>next\<close>; Mongoose's hook runner
  (kareem) continues the save at the first call of \<open>next\<close> or when the returned promise
  settles, whichever comes first. When the password is not modified the hook calls
  \<open>next()\<close> synchronously but does not return: the save goes on with the document as it
  is, while the body still awaits \<open>genSalt\<close> and \<open>hash\<close> and then assigns the rehashed
  stored value to the in-memory document, marking \<open>password\<close> modified. The model takes
  the schedule in which the hash settles after the write (bcrypt with cost 10 takes tens of
  milliseconds): \<open>user_save\<close> returns the document written and the in-memory in_memory
  afterwards. When the password is modified, \<open>next\<close> is never called and the save waits
  for the promise, so it writes the hashed document, or fails with the hash's error.
\<close>

type_synonym digest = "string \<Rightarrow> string \<Rightarrow> string"

definition salt_len :: nat where
  "salt_len = 29"

definition bcrypt_hash :: "digest \<Rightarrow> string \<Rightarrow> string \<Rightarrow> string" where
  "bcrypt_hash H salt pw = salt @ H salt pw"

definition bcrypt_compare :: "digest \<Rightarrow> string \<Rightarrow> string \<Rightarrow> bool" where
  "bcrypt_compare H pw h = (let s = take salt_len h in h = s @ H s pw)"

datatype auth_error = IllegalArguments

text \<open>A loaded or new Mongoose document with its modified paths.\<close>

record mdoc =
  mfields :: doc
  misNew :: bool
  mmodified :: "string list"

text \<open>In a new document every path that is set counts as modified.\<close>

definition isModified :: "string \<Rightarrow> mdoc \<Rightarrow> bool" where
  "isModified p d = ((misNew d \<and> mfields d p \<noteq> None) \<or> p \<in> set (mmodified d))"

definition mset_path :: "string \<Rightarrow> jval \<Rightarrow> mdoc \<Rightarrow> mdoc" where
  "mset_path p v d = d\<lparr>mfields := (mfields d)(p \<mapsto> v), mmodified := p # mmodified d\<rparr>"

definition new_mdoc :: "doc \<Rightarrow> mdoc" where
  "new_mdoc f = \<lparr>mfields = f, misNew = True, mmodified = []\<rparr>"

definition loaded_mdoc :: "doc \<Rightarrow> mdoc" where
  "loaded_mdoc f = \<lparr>mfields = f, misNew = False, mmodified = []\<rparr>"

definition stored_password :: "mdoc \<Rightarrow> string option" where
  "stored_password d = (case mfields d ''password'' of Some (JStr p) \<Rightarrow> Some p | _ \<Rightarrow> None)"

text \<open>\<open>userSchema.methods.matchPassword\<close>\<close>

definition matchPassword :: "digest \<Rightarrow> mdoc \<Rightarrow> string \<Rightarrow> auth_error + bool" where
  "matchPassword H d entered =
     (case stored_password d of None \<Rightarrow> Inl IllegalArguments | Some h \<Rightarrow> Inr (bcrypt_compare H entered h))"

text \<open>\<open>userSchema.pre("save", ...)\<close>\<close>

record hook_run =
  next_early :: bool
  hook_result :: "auth_error + mdoc"

definition user_pre_save :: "digest \<Rightarrow> string \<Rightarrow> mdoc \<Rightarrow> hook_run" where
  "user_pre_save H salt d =
     \<lparr>next_early = \<not> isModified ''password'' d,
      hook_result =
        (case stored_password d of
           None \<Rightarrow> Inl IllegalArguments
         | Some pw \<Rightarrow> Inr (mset_path ''password'' (JStr (bcrypt_hash H salt pw)) d))\<rparr>"

record save_run =
  saved :: "auth_error + mdoc"
  in_memory :: mdoc

definition clean_mdoc :: "mdoc \<Rightarrow> mdoc" where
  "clean_mdoc d = d\<lparr>misNew := False, mmodified := []\<rparr>"

definition user_save :: "digest \<Rightarrow> string \<Rightarrow> mdoc \<Rightarrow> save_run" where
  "user_save H salt d =
     (let r = user_pre_save H salt d in
      if next_early r then
        \<lparr>saved = Inr (clean_mdoc d),
         in_memory = (case hook_result (user_pre_save H salt (clean_mdoc d)) of
                       Inl e \<Rightarrow> clean_mdoc d
                     | Inr d' \<Rightarrow> d')\<rparr>
      else
        (case hook_result r of
           Inl e \<Rightarrow> \<lparr>saved = Inl e, in_memory = d\<rparr>
         | Inr d' \<Rightarrow> \<lparr>saved = Inr (clean_mdoc d'), in_memory = clean_mdoc d'\<rparr>))"

text \<open>Concrete salts and a digest for the witnesses.\<close>

definition demo_salt1 :: string where "demo_salt1 = ''$2a$10$abcdefghijklmnopqrstuv''"
definition demo_salt2 :: string where "demo_salt2 = ''$2a$10$ABCDEFGHIJKLMNOPQRSTUV''"
definition demo_digest :: digest where "demo_digest s p = rev p"

lemmas auth_defs [model_defs] = bcrypt_hash_def bcrypt_compare_def isModified_def mset_path_def
  new_mdoc_def loaded_mdoc_def stored_password_def matchPassword_def user_pre_save_def clean_mdoc_def user_save_def

subsection \<open>bcrypt\<close>

lemma bcrypt_compare_hash: "length salt = salt_len \<Longrightarrow> bcrypt_compare H pw (bcrypt_hash H salt pw)"
  by (simp add: bcrypt_compare_def bcrypt_hash_def)

lemma bcrypt_compare_rehash:
  assumes "length s2 = salt_len" and "inj (H s2)" and "h \<noteq> pw"
  shows "\<not> bcrypt_compare H pw (bcrypt_hash H s2 h)"
  using assms by (auto simp: bcrypt_compare_def bcrypt_hash_def dest: injD)

lemma stored_password_set [simp]: "stored_password (mset_path ''password'' (JStr p) d) = Some p"
  by (simp add: stored_password_def mset_path_def)

lemma stored_password_clear [simp]: "stored_password (d\<lparr>misNew := b, mmodified := m\<rparr>) = stored_password d"
  by (simp add: stored_password_def)

subsection \<open>Properties of the password handling\<close>

lemma mset_path_fields [simp]:
  "mfields (mset_path p v d) = (mfields d)(p \<mapsto> v)" "mmodified (mset_path p v d) = p # mmodified d"
  "misNew (mset_path p v d) = misNew d"
  by (simp_all add: mset_path_def)

lemma new_mdoc_fields [simp]: "mfields (new_mdoc f) = f"
  by (simp add: new_mdoc_def)

lemma pre_save_new:
  "f ''password'' = Some (JStr pw) \<Longrightarrow>
   hook_result (user_pre_save H salt (new_mdoc f)) = Inr (mset_path ''password'' (JStr (bcrypt_hash H salt pw)) (new_mdoc f))"
  by (simp add: user_pre_save_def new_mdoc_def stored_password_def isModified_def)

lemma stored_password_clean [simp]: "stored_password (clean_mdoc d) = stored_password d"
  by (simp add: stored_password_def clean_mdoc_def)

text \<open>
  C15. Signing up and logging in: a new user document saved with a fresh 29-character
  salt is written with a hash against which matchPassword accepts the original password.
\<close>

theorem signup_then_login:
  assumes "length salt = salt_len" and "f ''password'' = Some (JStr pw)"
  shows "\<exists>d. saved (user_save H salt (new_mdoc f)) = Inr d \<and> matchPassword H d pw = Inr True"
  using assms
  by (simp add: user_save_def user_pre_save_def matchPassword_def new_mdoc_def stored_password_def
      isModified_def mset_path_def clean_mdoc_def bcrypt_compare_hash)

theorem signup_then_login_witness:
  "\<exists>d. saved (user_save demo_digest demo_salt1 (new_mdoc [''password'' \<mapsto> JStr ''secret1''])) = Inr d \<and>
       matchPassword demo_digest d ''secret1'' = Inr True"
  by (rule signup_then_login) (simp_all add: demo_salt1_def salt_len_def)

text \<open>
  C16. Saving a loaded user whose password was not modified calls next() early: the first
  write keeps the stored hash, so logging in still works, but the hook's body rehashes the
  stored hash into the in-memory document, marked modified. For injective digests
  matchPassword rejects the real password against that in_memory, and the next save of
  the in_memory writes a hash that rejects it too.
\<close>

theorem resave_rehashes_password:
  assumes "length s1 = salt_len" and "length s2 = salt_len" and "inj (H s2)"
    and "length s3 = salt_len" and "inj (H s3)"
    and "bcrypt_hash H s1 pw \<noteq> pw" and "bcrypt_hash H s2 (bcrypt_hash H s1 pw) \<noteq> pw"
    and "f ''password'' = Some (JStr (bcrypt_hash H s1 pw))"
  shows "next_early (user_pre_save H s2 (loaded_mdoc f)) \<and>
         saved (user_save H s2 (loaded_mdoc f)) = Inr (loaded_mdoc f) \<and>
         matchPassword H (loaded_mdoc f) pw = Inr True \<and>
         matchPassword H (in_memory (user_save H s2 (loaded_mdoc f))) pw = Inr False \<and>
         (\<exists>d. saved (user_save H s3 (in_memory (user_save H s2 (loaded_mdoc f)))) = Inr d \<and>
              matchPassword H d pw = Inr False)"
proof -
  let ?h1 = "bcrypt_hash H s1 pw" and ?h2 = "bcrypt_hash H s2 (bcrypt_hash H s1 pw)"
  have c1: "bcrypt_compare H pw ?h1" using assms(1) by (rule bcrypt_compare_hash)
  have c2: "\<not> bcrypt_compare H pw ?h2" using assms(2,3,6) by (rule bcrypt_compare_rehash)
  have c3: "\<not> bcrypt_compare H pw (bcrypt_hash H s3 ?h2)" using assms(4,5,7) by (rule bcrypt_compare_rehash)
  have inst: "in_memory (user_save H s2 (loaded_mdoc f)) =
      mset_path ''password'' (JStr ?h2) (clean_mdoc (loaded_mdoc f))"
    using assms(8) by (simp add: user_save_def user_pre_save_def loaded_mdoc_def stored_password_def
        isModified_def clean_mdoc_def Let_def)
  have "saved (user_save H s3 (mset_path ''password'' (JStr ?h2) (clean_mdoc (loaded_mdoc f)))) =
      Inr (clean_mdoc (mset_path ''password'' (JStr (bcrypt_hash H s3 ?h2))
                         (mset_path ''password'' (JStr ?h2) (clean_mdoc (loaded_mdoc f)))))"
    by (simp add: user_save_def user_pre_save_def isModified_def Let_def clean_mdoc_def)
  with inst c1 c2 c3 assms(8) show ?thesis
    by (simp add: user_save_def user_pre_save_def matchPassword_def loaded_mdoc_def stored_password_def
        isModified_def clean_mdoc_def Let_def)
qed

theorem resave_rehashes_password_witness:
  "next_early (user_pre_save demo_digest demo_salt2 (loaded_mdoc [''password'' \<mapsto> JStr (bcrypt_hash demo_digest demo_salt1 ''secret1'')])) \<and>
   saved (user_save demo_digest demo_salt2 (loaded_mdoc [''password'' \<mapsto> JStr (bcrypt_hash demo_digest demo_salt1 ''secret1'')])) =
     Inr (loaded_mdoc [''password'' \<mapsto> JStr (bcrypt_hash demo_digest demo_salt1 ''secret1'')]) \<and>
   matchPassword demo_digest (loaded_mdoc [''password'' \<mapsto> JStr (bcrypt_hash demo_digest demo_salt1 ''secret1'')]) ''secret1'' = Inr True \<and>
   matchPassword demo_digest (in_memory (user_save demo_digest demo_salt2 (loaded_mdoc [''password'' \<mapsto> JStr (bcrypt_hash demo_digest demo_salt1 ''secret1'')]))) ''secret1'' = Inr False \<and>
   (\<exists>d. saved (user_save demo_digest demo_salt1 (in_memory (user_save demo_digest demo_salt2
           (loaded_mdoc [''password'' \<mapsto> JStr (bcrypt_hash demo_digest demo_salt1 ''secret1'')])))) = Inr d \<and>
        matchPassword demo_digest d ''secret1'' = Inr False)"
proof (rule resave_rehashes_password)
  show "length demo_salt1 = salt_len" "length demo_salt2 = salt_len" "length demo_salt1 = salt_len"
    by (simp_all add: demo_salt1_def demo_salt2_def salt_len_def)
  show "inj (demo_digest demo_salt2)" "inj (demo_digest demo_salt1)"
    by (simp_all add: demo_digest_def inj_def)
  show "bcrypt_hash demo_digest demo_salt1 ''secret1'' \<noteq> ''secret1''"
    by (simp add: bcrypt_hash_def demo_salt1_def)
  show "bcrypt_hash demo_digest demo_salt2 (bcrypt_hash demo_digest demo_salt1 ''secret1'') \<noteq> ''secret1''"
    by (simp add: bcrypt_hash_def demo_salt2_def)
qed simp

end
