(* ===== verification/AuthRoutes.thy ===== *)
theory AuthRoutes
  imports Models
begin

text \<open>
  The authentication router of \<open>src/smartlink_backend/routes/auth.js\<close>: three routes,
  two of them preceded by an array of express-validator chains. Each chain
  \<open>body(field).check().withMessage(msg)\<close> reads one field of the JSON body, converts
  it to a string (a missing field reads as the empty string, except for \<open>exists()\<close>,
  which tests for \<open>undefined\<close>), and records \<open>{param: field, msg}\<close> when the check
  fails. The chains only record: they never end the request, and the controller
  (\<open>register\<close>, \<open>login\<close>, \<open>getMe\<close> of \<open>controllers/authController\<close>, not in
  the snapshot) is always called next, with the recorded errors in the request.
  \<open>isEmail\<close> is validator.js's e-mail syntax check, a parameter \<open>is_email\<close> here.
  Express matches a route path case-insensitively and ignores one trailing slash.
  Body values are strings (other JSON types are not modelled).
\<close>

type_synonym body = "string \<rightharpoonup> string"

datatype check = NotEmpty | IsEmail | MinLength nat | IsIn "string list" | Exists

record field_rule =
  fr_field :: string
  fr_check :: check
  fr_msg :: string

record validation_error =
  ve_param :: string
  ve_msg :: string

definition rule :: "string \<Rightarrow> check \<Rightarrow> string \<Rightarrow> field_rule" where
  "rule f c m = \<lparr>fr_field = f, fr_check = c, fr_msg = m\<rparr>"

definition register_rules :: "field_rule list" where
  "register_rules =
     [rule ''name'' NotEmpty ''Name is required'',
      rule ''email'' IsEmail ''Please include a valid email'',
      rule ''password'' (MinLength 6) ''Password must be at least 6 characters'',
      rule ''phone'' NotEmpty ''Phone number is required'',
      rule ''role'' (IsIn [''buyer'', ''seller'', ''rider'']) ''Invalid role'']"

definition login_rules :: "field_rule list" where
  "login_rules =
     [rule ''email'' IsEmail ''Please include a valid email'',
      rule ''password'' Exists ''Password is required'']"

definition as_string :: "string option \<Rightarrow> string" where
  "as_string v = (case v of None \<Rightarrow> [] | Some s \<Rightarrow> s)"

text \<open>
  validator.js's \<open>isLength\<close> counts UTF-16 code units minus surrogate pairs and minus the
  variation selectors U+FE0E and U+FE0F: the code points other than the two selectors.
  Strings are UTF-8 byte lists here, so a code point is a byte that is not a continuation
  byte (\<open>0x80\<close> to \<open>0xBF\<close>), and a selector is one of the sequences
  \<open>EF B8 8E\<close>, \<open>EF B8 8F\<close>.
\<close>

definition utf8_cont :: "char \<Rightarrow> bool" where
  "utf8_cont c = ((128 :: nat) \<le> of_char c \<and> (of_char c :: nat) < 192)"

fun isLength_count :: "string \<Rightarrow> nat" where
  "isLength_count (a # b # c # r) =
     (if a = CHR 0xEF \<and> b = CHR 0xB8 \<and> (c = CHR 0x8E \<or> c = CHR 0x8F) then isLength_count r
      else (if utf8_cont a then 0 else 1) + isLength_count (b # c # r))"
| "isLength_count (a # r) = (if utf8_cont a then 0 else 1) + isLength_count r"
| "isLength_count [] = 0"

fun check_passes :: "(string \<Rightarrow> bool) \<Rightarrow> check \<Rightarrow> string option \<Rightarrow> bool" where
  "check_passes is_email NotEmpty v = (as_string v \<noteq> [])"
| "check_passes is_email IsEmail v = is_email (as_string v)"
| "check_passes is_email (MinLength n) v = (n \<le> isLength_count (as_string v))"
| "check_passes is_email (IsIn xs) v = (as_string v \<in> set xs)"
| "check_passes is_email Exists v = (v \<noteq> None)"

definition run_rules :: "(string \<Rightarrow> bool) \<Rightarrow> field_rule list \<Rightarrow> body \<Rightarrow> validation_error list" where
  "run_rules is_email rs b =
     [\<lparr>ve_param = fr_field r, ve_msg = fr_msg r\<rparr>. r \<leftarrow> rs, \<not> check_passes is_email (fr_check r) (b (fr_field r))]"

datatype http_method = GET | POST

datatype controller = Register | Login | GetMe

datatype middleware = Validate "field_rule list" | AuthGuard

record route =
  rt_method :: http_method
  rt_path :: string
  rt_chain :: "middleware list"
  rt_controller :: controller

definition auth_router :: "route list" where
  "auth_router =
     [\<lparr>rt_method = POST, rt_path = ''/register'', rt_chain = [Validate register_rules], rt_controller = Register\<rparr>,
      \<lparr>rt_method = POST, rt_path = ''/login'', rt_chain = [Validate login_rules], rt_controller = Login\<rparr>,
      \<lparr>rt_method = GET, rt_path = ''/me'', rt_chain = [AuthGuard], rt_controller = GetMe\<rparr>]"

definition strip_slash :: "string \<Rightarrow> string" where
  "strip_slash p = (if p \<noteq> [] \<and> last p = CHR ''/'' \<and> p \<noteq> ''/'' then butlast p else p)"

definition path_matches :: "string \<Rightarrow> string \<Rightarrow> bool" where
  "path_matches pat p = (js_lower (strip_slash p) = js_lower pat)"

text \<open>
  What the router does with a request: the first route whose method and path match runs
  its chain; the validators record their errors, the guard is \<open>middleware/auth\<close> (not
  in the snapshot, so its decision is a parameter), and the controller is reached with
  the recorded errors. No matching route: the router passes the request on.
\<close>

datatype dispatch = ToController controller "validation_error list" | Denied | PassOn

fun run_chain :: "(string \<Rightarrow> bool) \<Rightarrow> bool \<Rightarrow> body \<Rightarrow> middleware list \<Rightarrow> validation_error list option" where
  "run_chain is_email authed b [] = Some []"
| "run_chain is_email authed b (Validate rs # ms) =
     map_option (\<lambda>es. run_rules is_email rs b @ es) (run_chain is_email authed b ms)"
| "run_chain is_email authed b (AuthGuard # ms) = (if authed then run_chain is_email authed b ms else None)"

definition route_request :: "(string \<Rightarrow> bool) \<Rightarrow> bool \<Rightarrow> http_method \<Rightarrow> string \<Rightarrow> body \<Rightarrow> dispatch" where
  "route_request is_email authed m p b =
     (case find (\<lambda>r. rt_method r = m \<and> path_matches (rt_path r) p) auth_router of
        None \<Rightarrow> PassOn
      | Some r \<Rightarrow> (case run_chain is_email authed b (rt_chain r) of
                    None \<Rightarrow> Denied
                  | Some es \<Rightarrow> ToController (rt_controller r) es))"

lemmas route_defs [model_defs] = rule_def register_rules_def login_rules_def as_string_def run_rules_def
  auth_router_def strip_slash_def path_matches_def route_request_def

subsection \<open>Properties of the validators and the router\<close>

text \<open>
  C17. Registration accepts exactly the roles of User.js other than admin: the "Invalid role" error is absent exactly when the body's role is the string of a role other than Admin.
\<close>

theorem register_role_rule:
  "(\<lparr>ve_param = ''role'', ve_msg = ''Invalid role''\<rparr> \<notin> set (run_rules E register_rules b)) =
   (\<exists>r. r \<noteq> Admin \<and> b ''role'' = Some (role_str r))"
proof -
  have "(\<lparr>ve_param = ''role'', ve_msg = ''Invalid role''\<rparr> \<notin> set (run_rules E register_rules b)) =
        (as_string (b ''role'') \<in> {''buyer'', ''seller'', ''rider''})"
    by (auto simp: run_rules_def register_rules_def rule_def)
  also have "\<dots> = (\<exists>r. r \<noteq> Admin \<and> b ''role'' = Some (role_str r))"
  proof
    assume "as_string (b ''role'') \<in> {''buyer'', ''seller'', ''rider''}"
    then show "\<exists>r. r \<noteq> Admin \<and> b ''role'' = Some (role_str r)"
      by (cases "b ''role''") (auto simp: as_string_def intro: exI [of _ Buyer] exI [of _ Seller] exI [of _ Rider])
  next
    assume "\<exists>r. r \<noteq> Admin \<and> b ''role'' = Some (role_str r)"
    then obtain r where "r \<noteq> Admin" "b ''role'' = Some (role_str r)" by blast
    then show "as_string (b ''role'') \<in> {''buyer'', ''seller'', ''rider''}"
      by (cases r) (simp_all add: as_string_def)
  qed
  finally show ?thesis .
qed

text \<open>
  C18. The validator chains never end a request: a POST to /register (any case, optional trailing slash) reaches the register controller, carrying the errors the chains recorded.
\<close>

theorem validators_never_block:
  "path_matches ''/register'' p \<Longrightarrow>
   route_request E authed POST p b = ToController Register (run_rules E register_rules b)"
  by (simp add: route_request_def auth_router_def)

theorem validators_never_block_witness:
  "route_request (\<lambda>_. False) False POST ''/Register/'' Map.empty = ToController Register (run_rules (\<lambda>_. False) register_rules Map.empty)"
  by (rule validators_never_block) code_simp

end
