(* ===== verification/Server.thy ===== *)
theory Server
  imports Prelude "HOL-Library.Multiset"
begin

text \<open>
  The Express application of \<open>src/smartlink-backend/server.js\<close>: the middleware stack in
  registration order (\<open>cors()\<close>, \<open>express.json()\<close>, six routers mounted under
  \<open>/api/...\<close>, the error handler) and the port it listens on. A request runs through the
  stack: \<open>cors()\<close>, with its defaults (\<open>preflightContinue: false\<close>,
  \<open>optionsSuccessStatus: 204\<close>), ends every \<open>OPTIONS\<close> request with status 204 and passes
  every other request on; \<open>express.json()\<close> parses a JSON body and,
  when the body is malformed, calls \<open>next(err)\<close>, which skips every ordinary middleware
  and router and reaches the four-argument \<open>errorHandler\<close>; a router mounted at a prefix
  sees a request whose path starts with the prefix, compared case-insensitively, followed
  by \<open>/\<close> or the end of the path, and receives the rest of the path. A request that no
  mount takes ends in Express's default 404 handler (\<open>errorHandler\<close> only handles
  errors). Whether a router handles a path it receives is decided by the router modules,
  which are not in the snapshot: the model stops when a router receives the request.
\<close>

datatype router = AuthRoutes | ProductRoutes | BuyerRoutes | SellerRoutes | RiderRoutes | AdminRoutes

datatype layer = Cors | JsonParser | Mount string router | ErrorMiddleware

definition mounts :: "(string \<times> router) list" where
  "mounts =
     [(''/api/auth'', AuthRoutes),
      (''/api/products'', ProductRoutes),
      (''/api/buyers'', BuyerRoutes),
      (''/api/sellers'', SellerRoutes),
      (''/api/riders'', RiderRoutes),
      (''/api/admin'', AdminRoutes)]"

definition stack :: "(string \<times> router) list \<Rightarrow> layer list" where
  "stack ms = [Cors, JsonParser] @ map (\<lambda>(pre, r). Mount pre r) ms @ [ErrorMiddleware]"

definition app_layers :: "layer list" where
  "app_layers = stack mounts"

datatype body_kind = NoBody | WellFormedJson | MalformedJson

record request =
  rq_method :: string
  rq_path :: string
  rq_body :: body_kind

datatype outcome = Preflight204 | Routed router string | HandledError | NotFound404

text \<open>cors tests \<open>req.method.toUpperCase() === 'OPTIONS'\<close>.\<close>

definition is_preflight :: "request \<Rightarrow> bool" where
  "is_preflight rq = (js_upper (rq_method rq) = ''OPTIONS'')"

text \<open>The rest of the path when a mount prefix matches: \<open>/\<close> for an exact match.\<close>

definition mount_match :: "string \<Rightarrow> string \<Rightarrow> string option" where
  "mount_match pre p =
     (let n = length pre in
      if js_lower (take n p) \<noteq> js_lower pre then None
      else if drop n p = [] then Some ''/''
      else if hd (drop n p) = CHR ''/'' then Some (drop n p)
      else None)"

text \<open>\<open>err\<close>: whether an error is being propagated (\<open>next(err)\<close>).\<close>

fun run_layers :: "layer list \<Rightarrow> bool \<Rightarrow> request \<Rightarrow> outcome" where
  "run_layers [] err rq = (if err then HandledError else NotFound404)"
| "run_layers (Cors # ls) err rq =
     (if err then run_layers ls err rq
      else if is_preflight rq then Preflight204 else run_layers ls err rq)"
| "run_layers (JsonParser # ls) err rq =
     (if err then run_layers ls err rq
      else run_layers ls (rq_body rq = MalformedJson) rq)"
| "run_layers (Mount pre r # ls) err rq =
     (if err then run_layers ls err rq
      else case mount_match pre (rq_path rq) of
             Some rest \<Rightarrow> Routed r rest
           | None \<Rightarrow> run_layers ls err rq)"
| "run_layers (ErrorMiddleware # ls) err rq = (if err then HandledError else run_layers ls err rq)"

definition handle_request :: "request \<Rightarrow> outcome" where
  "handle_request rq = run_layers app_layers False rq"

text \<open>\<open>const PORT = process.env.PORT || 5000\<close>: an unset or empty variable gives 5000.\<close>

datatype port = EnvPort string | DefaultPort nat

definition listen_port :: "string option \<Rightarrow> port" where
  "listen_port env = (case env of None \<Rightarrow> DefaultPort 5000 | Some s \<Rightarrow> if s = [] then DefaultPort 5000 else EnvPort s)"

lemmas server_defs [model_defs] = is_preflight_def mounts_def stack_def app_layers_def mount_match_def handle_request_def listen_port_def

subsection \<open>Properties of the application stack\<close>

lemma mount_match_prefix:
  assumes m1: "mount_match p1 x \<noteq> None" and m2: "mount_match p2 x \<noteq> None"
    and len: "length p1 < length p2"
  shows "prefix (js_lower p1 @ ''/'') (js_lower p2)"
proof -
  let ?n1 = "length p1" and ?n2 = "length p2"
  from m1 have t1: "js_lower (take ?n1 x) = js_lower p1"
    by (auto simp: mount_match_def Let_def split: if_splits)
  from m2 have t2: "js_lower (take ?n2 x) = js_lower p2"
    by (auto simp: mount_match_def Let_def split: if_splits)
  from t2 have "length (take ?n2 x) = ?n2" by (metis js_lower_length)
  then have lx: "?n2 \<le> length x" by simp
  with len have nd: "drop ?n1 x \<noteq> []" by simp
  with m1 have slash: "hd (drop ?n1 x) = CHR ''/''"
    by (auto simp: mount_match_def Let_def split: if_splits)
  have "take (Suc ?n1) x = take ?n1 x @ [CHR ''/'']"
    using nd slash by (simp add: take_Suc_conv_app_nth hd_drop_conv_nth)
  then have "js_lower (take (Suc ?n1) x) = js_lower p1 @ ''/''"
    using t1 by (simp add: js_lower_def js_lower_char_def)
  moreover have "prefix (take (Suc ?n1) x) (take ?n2 x)"
    using len by (simp add: prefix_def) (metis Suc_leI le_add_diff_inverse take_add)
  then have "prefix (js_lower (take (Suc ?n1) x)) (js_lower (take ?n2 x))"
    by (auto simp: prefix_def js_lower_def)
  ultimately show ?thesis using t2 by simp
qed

lemma mounts_prefix_free:
  "\<forall>(p1, r1) \<in> set mounts. \<forall>(p2, r2) \<in> set mounts.
     length p1 < length p2 \<longrightarrow> \<not> prefix (js_lower p1 @ ''/'') (js_lower p2)"
  by code_simp

lemma mounts_lower_inj:
  "\<forall>(p1, r1) \<in> set mounts. \<forall>(p2, r2) \<in> set mounts. js_lower p1 = js_lower p2 \<longrightarrow> (p1, r1) = (p2, r2)"
  by code_simp

lemma mount_match_same_length:
  "mount_match p1 x \<noteq> None \<Longrightarrow> mount_match p2 x \<noteq> None \<Longrightarrow> length p1 = length p2 \<Longrightarrow> js_lower p1 = js_lower p2"
  by (auto simp: mount_match_def Let_def split: if_splits)

lemma mounts_unique_match:
  assumes a: "(p1, r1) \<in> set mounts" and b: "(p2, r2) \<in> set mounts"
    and m1: "mount_match p1 x \<noteq> None" and m2: "mount_match p2 x \<noteq> None"
  shows "(p1, r1) = (p2, r2)"
proof -
  have pf: "length q1 < length q2 \<Longrightarrow> \<not> prefix (js_lower q1 @ ''/'') (js_lower q2)"
    if "(q1, s1) \<in> set mounts" "(q2, s2) \<in> set mounts" for q1 s1 q2 s2
    using mounts_prefix_free that by blast
  have "js_lower p1 = js_lower p2"
  proof (rule linorder_cases [of "length p1" "length p2"])
    assume "length p1 < length p2"
    with m1 m2 have "prefix (js_lower p1 @ ''/'') (js_lower p2)" by (rule mount_match_prefix)
    with pf [OF a b] \<open>length p1 < length p2\<close> show ?thesis by blast
  next
    assume "length p1 = length p2"
    with m1 m2 show ?thesis by (rule mount_match_same_length)
  next
    assume "length p2 < length p1"
    with m2 m1 have "prefix (js_lower p2 @ ''/'') (js_lower p1)" by (rule mount_match_prefix)
    with pf [OF b a] \<open>length p2 < length p1\<close> show ?thesis by blast
  qed
  with mounts_lower_inj a b show ?thesis by blast
qed

lemma run_mounts:
  "run_layers (map (\<lambda>(pre, r). Mount pre r) ms @ rest) err rq =
   (if err then run_layers rest err rq
    else case find (\<lambda>(pre, r). mount_match pre (rq_path rq) \<noteq> None) ms of
      Some (pre, r) \<Rightarrow> Routed r (the (mount_match pre (rq_path rq)))
    | None \<Rightarrow> run_layers rest err rq)"
  by (induction ms) (auto split: option.splits)

lemma find_SomeD': "find P xs = Some x \<Longrightarrow> x \<in> set xs \<and> P x"
  by (induction xs) (auto split: if_splits)

lemma find_unique_perm:
  assumes "set xs = set ys" and "\<forall>x \<in> set xs. \<forall>y \<in> set xs. P x \<longrightarrow> P y \<longrightarrow> x = y"
  shows "find P xs = find P ys"
proof (cases "find P xs")
  case None
  with assms(1) have "find P ys = None" by (simp add: find_None_iff)
  with None show ?thesis by simp
next
  case (Some x)
  then have x: "x \<in> set xs" "P x" by (auto dest: find_SomeD')
  with assms(1) have "find P ys \<noteq> None" by (auto simp: find_None_iff)
  then obtain y where y: "find P ys = Some y" by blast
  then have "y \<in> set xs" "P y" using assms(1) by (auto dest: find_SomeD')
  with x assms(2) have "y = x" by blast
  with Some y show ?thesis by simp
qed

text \<open>
  C19. The order in which server.js mounts its six routers does not matter: no request path matches two mount prefixes, so every permutation of the mounts routes every request as the file does.
\<close>

theorem mount_order_irrelevant:
  assumes "mset ms = mset mounts"
  shows "run_layers (stack ms) False rq = handle_request rq"
proof -
  have set_eq: "set ms = set mounts" using assms by (metis set_mset_mset)
  have uniq: "\<forall>a \<in> set mounts. \<forall>b \<in> set mounts.
      (\<lambda>(pre, r). mount_match pre (rq_path rq) \<noteq> None) a \<longrightarrow> (\<lambda>(pre, r). mount_match pre (rq_path rq) \<noteq> None) b \<longrightarrow> a = b"
  proof (intro ballI impI)
    fix a b assume "a \<in> set mounts" "b \<in> set mounts"
      "(\<lambda>(pre, r). mount_match pre (rq_path rq) \<noteq> None) a" "(\<lambda>(pre, r). mount_match pre (rq_path rq) \<noteq> None) b"
    moreover obtain p1 r1 p2 r2 where "a = (p1, r1)" "b = (p2, r2)" by (cases a, cases b)
    ultimately show "a = b" using mounts_unique_match by simp
  qed
  have "find (\<lambda>(pre, r). mount_match pre (rq_path rq) \<noteq> None) ms =
        find (\<lambda>(pre, r). mount_match pre (rq_path rq) \<noteq> None) mounts"
    using set_eq uniq by (intro find_unique_perm) simp_all
  then show ?thesis
    by (simp add: handle_request_def app_layers_def stack_def run_mounts)
qed

theorem mount_order_irrelevant_witness:
  "run_layers (stack (rev mounts)) False \<lparr>rq_method = ''GET'', rq_path = ''/api/riders/7'', rq_body = NoBody\<rparr> =
   handle_request \<lparr>rq_method = ''GET'', rq_path = ''/api/riders/7'', rq_body = NoBody\<rparr>"
  by (rule mount_order_irrelevant) simp

text \<open>
  C20. A request whose JSON body is malformed never reaches a router: an OPTIONS request
  ends in cors() with 204 before the body is parsed, and every other request has its
  parse error passed on by express.json() and handled by errorHandler.
\<close>

theorem malformed_json_handled:
  "rq_body rq = MalformedJson \<Longrightarrow>
   handle_request rq = (if is_preflight rq then Preflight204 else HandledError)"
  by (simp add: handle_request_def app_layers_def stack_def mounts_def)

theorem malformed_json_handled_witness:
  "handle_request \<lparr>rq_method = ''POST'', rq_path = ''/api/auth/login'', rq_body = MalformedJson\<rparr> = HandledError"
proof -
  have "handle_request \<lparr>rq_method = ''POST'', rq_path = ''/api/auth/login'', rq_body = MalformedJson\<rparr> =
        (if is_preflight \<lparr>rq_method = ''POST'', rq_path = ''/api/auth/login'', rq_body = MalformedJson\<rparr>
         then Preflight204 else HandledError)"
    by (rule malformed_json_handled) simp
  then show ?thesis by (simp add: is_preflight_def js_upper_def js_upper_char_def)
qed

end
