(* ===== verification/Seed.thy ===== *)
theory Seed
  imports UserAuth
begin

text \<open>
  The seeding script \<open>src/smartlink_backend/seed.js\<close>: it connects, finds the first user
  whose role is \<open>seller\<close> or creates one (\<open>User.create\<close>, which validates, runs the
  \<open>pre("save")\<close> hook of User.js and inserts under the unique index on \<open>email\<close>),
  deletes every product, and inserts the four sample products with \<open>seller: seller._id\<close>
  added (\<open>Product.insertMany\<close>: every document is cast and validated first, then they
  are inserted in order). Any rejection reaches the \<open>catch\<close> and the process exits with 1;
  success exits with 0. The script requires \<open>./models/Product\<close> and \<open>./models/User\<close>; the
  models of the snapshot are those of \<open>src/smartlink-backend/models\<close>, which the model uses.

  The database is the two collections and the next fresh \<open>_id\<close>; \<open>now\<close> is the clock
  reading, \<open>connected\<close> whether \<open>mongoose.connect\<close> succeeded. The sample products'
  \<open>rating: {average, count}\<close> objects are omitted from the raw documents: \<open>rating\<close> is not
  a path of productSchema, and lemma \<open>mg_new_strict\<close> shows that a key outside the schema
  does not change the created document.
\<close>

record db =
  db_users :: collection
  db_products :: collection
  db_next :: oid

datatype seed_error = NoConnection | DbError "mg_error list" | BcryptError auth_error

definition product_raw :: "string \<Rightarrow> string \<Rightarrow> int \<Rightarrow> string \<Rightarrow> string list \<Rightarrow> int \<Rightarrow> doc" where
  "product_raw n desc pr cat imgs st =
     [''name'' \<mapsto> JStr n, ''description'' \<mapsto> JStr desc, ''price'' \<mapsto> JNum pr,
      ''category'' \<mapsto> JStr cat, ''images'' \<mapsto> JArr (map JStr imgs), ''stock'' \<mapsto> JNum st]"

definition sampleProducts :: "doc list" where
  "sampleProducts =
     [product_raw ''Fresh Tomatoes (1kg)'' ''Farm fresh tomatoes from local farms'' 800 ''food''
        [''https://images.pexels.com/photos/1327838/pexels-photo-1327838.jpeg''] 50,
      product_raw ''Samsung Galaxy A54'' ''Brand new Samsung Galaxy A54 with 128GB storage'' 285000 ''electronics''
        [''https://images.pexels.com/photos/788946/pexels-photo-788946.jpeg'',
         ''https://images.pexels.com/photos/1591056/pexels-photo-1591056.jpeg''] 15,
      product_raw ''LG 32-inch Smart TV'' ''LG Smart TV with WiFi and Netflix support'' 125000 ''electronics''
        [''https://images.pexels.com/photos/1201996/pexels-photo-1201996.jpeg''] 8,
      product_raw ''Men's Sneakers'' ''Quality imported sneakers, various sizes available'' 15000 ''fashion''
        [''https://images.pexels.com/photos/1598505/pexels-photo-1598505.jpeg''] 40]"

definition seller_raw :: doc where
  "seller_raw =
     [''name'' \<mapsto> JStr ''Test Seller'', ''email'' \<mapsto> JStr ''seller@test.com'',
      ''password'' \<mapsto> JStr ''password123'', ''phone'' \<mapsto> JStr ''08012345678'',
      ''role'' \<mapsto> JStr ''seller'', ''location'' \<mapsto> JStr ''Lagos, Nigeria'',
      ''businessName'' \<mapsto> JStr ''Test Store'',
      ''avatar'' \<mapsto> JStr ''https://images.pexels.com/photos/220453/pexels-photo-220453.jpeg'']"

text \<open>\<open>User.findOne({ role: 'seller' })\<close>: the first match in natural order.\<close>

definition find_seller :: "collection \<Rightarrow> doc option" where
  "find_seller us = find (\<lambda>d. d ''role'' = Some (JStr ''seller'')) us"

text \<open>\<open>User.create(raw)\<close>: cast and validate, the \<open>pre("save")\<close> hook, the insert.\<close>

definition user_create :: "digest \<Rightarrow> string \<Rightarrow> collection \<Rightarrow> doc \<Rightarrow> oid \<Rightarrow> timestamp \<Rightarrow>
    seed_error + (collection \<times> doc)" where
  "user_create H salt coll raw fresh now =
     (case mg_new userSchema raw fresh now of
        Inl es \<Rightarrow> Inl (DbError es)
      | Inr d \<Rightarrow>
          (case hook_result (user_pre_save H salt (new_mdoc d)) of
             Inl e \<Rightarrow> Inl (BcryptError e)
           | Inr m \<Rightarrow>
               (case mg_insert userSchema coll (mfields m) of
                  Inl es \<Rightarrow> Inl (DbError es)
                | Inr coll' \<Rightarrow> Inr (coll', mfields m))))"

text \<open>\<open>{...product, seller: seller._id}\<close>\<close>

definition with_seller :: "doc \<Rightarrow> doc \<Rightarrow> doc" where
  "with_seller s p = p(''seller'' := s ''_id'')"

text \<open>\<open>Model.insertMany(raws)\<close>: all documents are created first (fresh ids in order),
  then inserted in order; an insert failure leaves the earlier documents inserted.\<close>

fun new_all :: "schema \<Rightarrow> doc list \<Rightarrow> oid \<Rightarrow> timestamp \<Rightarrow> mg_error list + doc list" where
  "new_all sch [] fresh now = Inr []"
| "new_all sch (r # rs) fresh now =
     (case mg_new sch r fresh now of
        Inl es \<Rightarrow> Inl es
      | Inr d \<Rightarrow> map_sum id (Cons d) (new_all sch rs (Suc fresh) now))"

fun insert_all :: "schema \<Rightarrow> collection \<Rightarrow> doc list \<Rightarrow> collection \<times> mg_error list" where
  "insert_all sch coll [] = (coll, [])"
| "insert_all sch coll (d # ds) =
     (case mg_insert sch coll d of
        Inl es \<Rightarrow> (coll, es)
      | Inr coll' \<Rightarrow> insert_all sch coll' ds)"

definition insertMany :: "schema \<Rightarrow> collection \<Rightarrow> doc list \<Rightarrow> oid \<Rightarrow> timestamp \<Rightarrow>
    (collection \<times> oid) \<times> mg_error list" where
  "insertMany sch coll raws fresh now =
     (case new_all sch raws fresh now of
        Inl es \<Rightarrow> ((coll, fresh), es)
      | Inr ds \<Rightarrow> let (coll', es) = insert_all sch coll ds in ((coll', fresh + length raws), es))"

text \<open>\<open>seedDatabase()\<close>: the exit code and the database it leaves.\<close>

definition seedDatabase :: "digest \<Rightarrow> string \<Rightarrow> bool \<Rightarrow> timestamp \<Rightarrow> db \<Rightarrow> nat \<times> db" where
  "seedDatabase H salt connected now st =
     (if \<not> connected then (1, st)
      else
        let found =
          (case find_seller (db_users st) of
             Some s \<Rightarrow> Inr (st, s)
           | None \<Rightarrow>
               (case user_create H salt (db_users st) seller_raw (db_next st) now of
                  Inl e \<Rightarrow> Inl e
                | Inr (us, s) \<Rightarrow> Inr (st\<lparr>db_users := us, db_next := Suc (db_next st)\<rparr>, s)))
        in case found of
             Inl e \<Rightarrow> (1, st)
           | Inr (st1, s) \<Rightarrow>
               let st2 = st1\<lparr>db_products := []\<rparr>;
                   ((ps, nxt), es) = insertMany productSchema [] (map (with_seller s) sampleProducts) (db_next st2) now
               in (if es = [] then 0 else 1, st2\<lparr>db_products := ps, db_next := nxt\<rparr>))"

text \<open>
  The database invariant the seed relies on: every stored document has an \<open>_id\<close> below
  the next fresh one. \<open>seeded ps i now\<close>: \<open>ps\<close> are the four sample products created
  with the ids \<open>i\<close> to \<open>i + 3\<close>.
\<close>

definition ids_below :: "collection \<Rightarrow> oid \<Rightarrow> bool" where
  "ids_below c n = (\<forall>d \<in> set c. \<exists>i. d ''_id'' = Some (JId i) \<and> i < n)"

definition wf_db :: "db \<Rightarrow> bool" where
  "wf_db st = (ids_below (db_users st) (db_next st) \<and> ids_below (db_products st) (db_next st))"

definition seeded :: "collection \<Rightarrow> oid \<Rightarrow> timestamp \<Rightarrow> bool" where
  "seeded ps i now =
     (length ps = 4 \<and> (\<forall>k < 4. mg_new productSchema (sampleProducts ! k) (i + k) now = Inr (ps ! k)))"

text \<open>Databases for the witnesses.\<close>

definition empty_db :: db where
  "empty_db = \<lparr>db_users = [], db_products = [], db_next = 0\<rparr>"

definition buyer_doc :: doc where
  "buyer_doc = [''_id'' \<mapsto> JId 0, ''email'' \<mapsto> JStr ''seller@test.com'', ''role'' \<mapsto> JStr ''buyer'']"

lemmas seed_defs [model_defs] = product_raw_def sampleProducts_def seller_raw_def find_seller_def
  user_create_def with_seller_def insertMany_def seedDatabase_def

subsection \<open>Creating and inserting documents\<close>

lemma new_all_Inr:
  "new_all sch rs fresh now = Inr ds \<Longrightarrow>
   length ds = length rs \<and> (\<forall>k < length rs. mg_new sch (rs ! k) (fresh + k) now = Inr (ds ! k))"
proof (induction rs arbitrary: ds fresh)
  case (Cons r rs)
  then obtain d ds' where "mg_new sch r fresh now = Inr d" "new_all sch rs (Suc fresh) now = Inr ds'" "ds = d # ds'"
    by (cases "mg_new sch r fresh now"; cases "new_all sch rs (Suc fresh) now") auto
  with Cons.IH [of "Suc fresh" ds'] show ?case
    by (auto simp: nth_Cons' less_Suc_eq_0_disj)
qed simp

lemma new_all_ok:
  "(\<forall>r \<in> set rs. fst (cast_paths (spaths sch) r) = []) \<Longrightarrow> \<exists>ds. new_all sch rs fresh now = Inr ds"
proof (induction rs arbitrary: fresh)
  case (Cons r rs)
  then have "fst (cast_paths (spaths sch) r) = []" by simp
  then obtain d where "mg_new sch r fresh now = Inr d" using mg_new_ok by blast
  moreover from Cons obtain ds where "new_all sch rs (Suc fresh) now = Inr ds" by auto
  ultimately show ?case by simp
qed simp

lemma insert_all_fresh:
  assumes "unique_paths sch = [''_id'']" and "distinct (map (\<lambda>d. d ''_id'') (coll @ ds))"
  shows "insert_all sch coll ds = (coll @ ds, [])"
  using assms(2)
proof (induction ds arbitrary: coll)
  case (Cons d ds)
  then have "\<forall>d' \<in> set coll. d' ''_id'' \<noteq> d ''_id''"
    by (auto simp: image_iff)
  then have "clashes sch coll d = []"
    using assms(1) by (simp add: clashes_def)
  with Cons.IH [of "coll @ [d]"] Cons.prems show ?case
    by (simp add: mg_insert_def)
qed simp


lemma new_all_ids:
  assumes "new_all sch rs fresh now = Inr ds"
  shows "map (\<lambda>d. d ''_id'') ds = map (\<lambda>j. Some (JId (fresh + j))) [0..<length rs]"
proof (rule nth_equalityI)
  from new_all_Inr [OF assms] have len: "length ds = length rs"
    and mk: "\<forall>k < length rs. mg_new sch (rs ! k) (fresh + k) now = Inr (ds ! k)" by auto
  then show "length (map (\<lambda>d. d ''_id'') ds) = length (map (\<lambda>j. Some (JId (fresh + j))) [0..<length rs])"
    by simp
  fix k assume k: "k < length (map (\<lambda>d. d ''_id'') ds)"
  with len mk have "mg_new sch (rs ! k) (fresh + k) now = Inr (ds ! k)" by simp
  then have "(ds ! k) ''_id'' = Some (JId (fresh + k))" by (rule mg_new_id)
  with k len show "map (\<lambda>d. d ''_id'') ds ! k = map (\<lambda>j. Some (JId (fresh + j))) [0..<length rs] ! k"
    by simp
qed

lemma fresh_ids_distinct: "distinct (map (\<lambda>k. Some (JId (fresh + k))) [0..<n])"
  by (simp add: distinct_map inj_on_def)

lemma with_seller_cast:
  "cast_paths (spaths productSchema) (with_seller s r) = cast_paths (spaths productSchema) r"
  by (rule cast_paths_strict) (auto simp: with_seller_def productSchema_def)

lemma sample_products_cast:
  assumes "r \<in> set sampleProducts"
  shows "fst (cast_paths (spaths productSchema) r) = []"
proof -
  from assms obtain k where "k < length sampleProducts" "r = sampleProducts ! k"
    by (auto simp: in_set_conv_nth)
  moreover have "length sampleProducts = 4" by (simp add: sampleProducts_def)
  ultimately have "k = 0 \<or> k = 1 \<or> k = 2 \<or> k = 3" "r = sampleProducts ! k" by auto
  then show ?thesis
    by (elim disjE) (simp_all add: sampleProducts_def cast_paths_errors product_raw_def productSchema_def
        plain_def ref_to_def check_path_def initial_value_def)
qed

lemma seed_products:
  "\<exists>ps. insertMany productSchema [] (map (with_seller s) sampleProducts) i now = ((ps, i + 4), []) \<and>
     length ps = 4 \<and> (\<forall>k < 4. mg_new productSchema (sampleProducts ! k) (i + k) now = Inr (ps ! k))"
proof -
  have len: "length sampleProducts = 4" by (simp add: sampleProducts_def)
  have "\<forall>r \<in> set (map (with_seller s) sampleProducts). fst (cast_paths (spaths productSchema) r) = []"
    by (simp add: with_seller_cast sample_products_cast)
  then obtain ds where ds: "new_all productSchema (map (with_seller s) sampleProducts) i now = Inr ds"
    using new_all_ok by blast
  from new_all_Inr [OF ds] len have "length ds = 4"
    and mk: "\<forall>k < 4. mg_new productSchema (sampleProducts ! k) (i + k) now = Inr (ds ! k)"
    by (auto simp: mg_new_def with_seller_cast)
  moreover have "insert_all productSchema [] ds = (ds, [])"
    using insert_all_fresh [of productSchema "[]" ds] new_all_ids [OF ds] fresh_ids_distinct
    by (simp add: unique_paths_def productSchema_def plain_def ref_to_def)
  ultimately show ?thesis
    using ds len by (simp add: insertMany_def)
qed


lemma seller_raw_cast: "fst (cast_paths (spaths userSchema) seller_raw) = []"
  by (simp add: cast_paths_errors seller_raw_def userSchema_def role_values_def plain_def check_path_def initial_value_def)

lemma seller_new:
  "\<exists>d. mg_new userSchema seller_raw i now = Inr d \<and> d ''_id'' = Some (JId i) \<and>
     d ''email'' = Some (JStr ''seller@test.com'') \<and> d ''role'' = Some (JStr ''seller'') \<and>
     d ''password'' = Some (JStr ''password123'')"
proof -
  from mg_new_ok [OF seller_raw_cast] obtain d where d: "mg_new userSchema seller_raw i now = Inr d" by blast
  have "d p = snd (check_path p po (seller_raw p))" if "(p, po) \<in> set (spaths userSchema)" for p po
    using reserved_ok_schemas(2) d that by (rule mg_new_lookup)
  then have "d ''email'' = Some (JStr ''seller@test.com'')" "d ''role'' = Some (JStr ''seller'')"
    "d ''password'' = Some (JStr ''password123'')"
    by (simp_all add: userSchema_def role_values_def plain_def check_path_def initial_value_def seller_raw_def)
  with d mg_new_id [OF d] show ?thesis by blast
qed

lemma user_create_seller:
  assumes "\<forall>u \<in> set us. u ''_id'' \<noteq> Some (JId i) \<and> u ''email'' \<noteq> Some (JStr ''seller@test.com'')"
  shows "\<exists>d. user_create H salt us seller_raw i now = Inr (us @ [d], d) \<and> d ''_id'' = Some (JId i) \<and>
     d ''role'' = Some (JStr ''seller'') \<and> d ''password'' = Some (JStr (bcrypt_hash H salt ''password123''))"
proof -
  from seller_new obtain d where d: "mg_new userSchema seller_raw i now = Inr d"
    and f: "d ''_id'' = Some (JId i)" "d ''email'' = Some (JStr ''seller@test.com'')"
      "d ''role'' = Some (JStr ''seller'')" "d ''password'' = Some (JStr ''password123'')" by blast
  let ?d' = "d(''password'' \<mapsto> JStr (bcrypt_hash H salt ''password123''))"
  have "clashes userSchema us ?d' = []"
    using assms f by (auto simp: clashes_def unique_paths_def userSchema_def plain_def)
  then show ?thesis
    using d f by (simp add: user_create_def pre_save_new mg_insert_def)
qed

lemma user_create_dup:
  assumes "u \<in> set us" and "u ''email'' = Some (JStr ''seller@test.com'')"
  shows "\<exists>e. user_create H salt us seller_raw i now = Inl e"
proof -
  from seller_new obtain d where d: "mg_new userSchema seller_raw i now = Inr d"
    and f: "d ''email'' = Some (JStr ''seller@test.com'')" "d ''password'' = Some (JStr ''password123'')" by blast
  let ?d' = "d(''password'' \<mapsto> JStr (bcrypt_hash H salt ''password123''))"
  have "clashes userSchema us ?d' \<noteq> []"
    using assms f by (auto simp: clashes_def unique_paths_def userSchema_def plain_def)
  then show ?thesis
    using d f by (auto simp: user_create_def pre_save_new mg_insert_def split: list.splits)
qed

subsection \<open>Runs of the seed\<close>

lemma sample_products_no_sellerId: "r \<in> set sampleProducts \<Longrightarrow> r ''sellerId'' = None"
  by (auto simp: sampleProducts_def product_raw_def)

lemma seeded_facts:
  assumes "seeded ps i now" and "d \<in> set ps"
  shows "conforms productSchema d \<and> d ''sellerId'' = None \<and> (\<exists>j. d ''_id'' = Some (JId j) \<and> i \<le> j \<and> j < i + 4)"
proof -
  from assms obtain k where k: "k < 4" "d = ps ! k" by (auto simp: seeded_def in_set_conv_nth)
  with assms(1) have new: "mg_new productSchema (sampleProducts ! k) (i + k) now = Inr d"
    by (simp add: seeded_def)
  have "sampleProducts ! k \<in> set sampleProducts" using k by (intro nth_mem) (simp add: sampleProducts_def)
  then have "(sampleProducts ! k) ''sellerId'' = None" by (rule sample_products_no_sellerId)
  moreover have "d ''sellerId'' = snd (check_path ''sellerId'' (ref_to ''User'') ((sampleProducts ! k) ''sellerId''))"
    using reserved_ok_schemas(3) new by (rule mg_new_lookup) (simp add: productSchema_def)
  ultimately have "d ''sellerId'' = None" by (simp add: check_path_def initial_value_def ref_to_def plain_def)
  with mg_new_conforms [OF reserved_ok_schemas(3) new] mg_new_id [OF new] k show ?thesis by auto
qed

lemma seeded_ids: "seeded ps i now \<Longrightarrow> i + 4 \<le> n \<Longrightarrow> ids_below ps n"
  by (auto simp: ids_below_def dest: seeded_facts)

lemma ids_below_mono: "ids_below c n \<Longrightarrow> n \<le> m \<Longrightarrow> ids_below c m"
  by (fastforce simp: ids_below_def)

lemma seed_products_seeded:
  "\<exists>ps. insertMany productSchema [] (map (with_seller s) sampleProducts) i now = ((ps, i + 4), []) \<and> seeded ps i now"
  using seed_products by (simp add: seeded_def)

lemma seed_found_ok:
  assumes "find_seller (db_users st) = Some s"
  shows "\<exists>ps. seedDatabase H salt True now st = (0, st\<lparr>db_products := ps, db_next := db_next st + 4\<rparr>) \<and>
    seeded ps (db_next st) now"
proof -
  obtain ps where "insertMany productSchema [] (map (with_seller s) sampleProducts) (db_next st) now =
      ((ps, db_next st + 4), [])" "seeded ps (db_next st) now"
    using seed_products_seeded by blast
  with assms show ?thesis by (simp add: seedDatabase_def) blast
qed

lemma seed_created_ok:
  assumes "find_seller (db_users st) = None" and "user_create H salt (db_users st) seller_raw (db_next st) now = Inr (us, s)"
  shows "\<exists>ps. seedDatabase H salt True now st =
      (0, st\<lparr>db_users := us, db_products := ps, db_next := Suc (db_next st) + 4\<rparr>) \<and> seeded ps (Suc (db_next st)) now"
proof -
  obtain ps where "insertMany productSchema [] (map (with_seller s) sampleProducts) (Suc (db_next st)) now =
      ((ps, Suc (db_next st) + 4), [])" "seeded ps (Suc (db_next st)) now"
    using seed_products_seeded by blast
  with assms show ?thesis by (simp add: seedDatabase_def) blast
qed

lemma seed_create_failed:
  "find_seller (db_users st) = None \<Longrightarrow> user_create H salt (db_users st) seller_raw (db_next st) now = Inl e \<Longrightarrow>
   seedDatabase H salt True now st = (1, st)"
  by (simp add: seedDatabase_def)

lemma seed_exit0_cases:
  assumes "seedDatabase H salt c now st = (0, st')"
  shows "c \<and> (\<exists>s i. seeded (db_products st') i now \<and> db_next st' = i + 4 \<and>
           ((find_seller (db_users st) = Some s \<and> db_users st' = db_users st \<and> i = db_next st) \<or>
            (find_seller (db_users st) = None \<and>
             user_create H salt (db_users st) seller_raw (db_next st) now = Inr (db_users st', s) \<and>
             i = Suc (db_next st))))"
proof (cases c)
  case False
  with assms show ?thesis by (simp add: seedDatabase_def)
next
  case True
  show ?thesis
  proof (cases "find_seller (db_users st)")
    case (Some s)
    from seed_found_ok [OF Some] obtain ps where
      "seedDatabase H salt True now st = (0, st\<lparr>db_products := ps, db_next := db_next st + 4\<rparr>)"
      "seeded ps (db_next st) now" by blast
    with assms True Some show ?thesis by auto
  next
    case None
    show ?thesis
    proof (cases "user_create H salt (db_users st) seller_raw (db_next st) now")
      case (Inl e)
      with assms True None seed_create_failed show ?thesis by fastforce
    next
      case (Inr r)
      then obtain us s where r: "user_create H salt (db_users st) seller_raw (db_next st) now = Inr (us, s)"
        by (cases r) auto
      from seed_created_ok [OF None r] obtain ps where
        "seedDatabase H salt True now st = (0, st\<lparr>db_users := us, db_products := ps, db_next := Suc (db_next st) + 4\<rparr>)"
        "seeded ps (Suc (db_next st)) now" by blast
      with assms True None r show ?thesis by auto
    qed
  qed
qed

lemma user_create_seller_Inr:
  assumes "user_create H salt us seller_raw i now = Inr (us', s)"
  shows "us' = us @ [s] \<and> s ''_id'' = Some (JId i) \<and> s ''role'' = Some (JStr ''seller'') \<and>
    s ''password'' = Some (JStr (bcrypt_hash H salt ''password123''))"
proof -
  from seller_new obtain d where d: "mg_new userSchema seller_raw i now = Inr d"
    and f: "d ''_id'' = Some (JId i)" "d ''role'' = Some (JStr ''seller'')"
      "d ''password'' = Some (JStr ''password123'')" by blast
  have "mg_insert userSchema us (d(''password'' \<mapsto> JStr (bcrypt_hash H salt ''password123''))) = Inr us'"
    and "s = d(''password'' \<mapsto> JStr (bcrypt_hash H salt ''password123''))"
    using assms d f by (auto simp: user_create_def pre_save_new split: sum.splits)
  with f show ?thesis by (auto dest: mg_insert_Inr)
qed

lemma find_seller_append:
  "find_seller us = None \<Longrightarrow> s ''role'' = Some (JStr ''seller'') \<Longrightarrow> find_seller (us @ [s]) = Some s"
  by (induction us) (simp_all add: find_seller_def split: if_splits)

lemma seed_empty_db: "\<exists>st'. seedDatabase H salt True now empty_db = (0, st')"
proof -
  have users: "db_users empty_db = []" and next0: "db_next empty_db = 0" by (simp_all add: empty_db_def)
  obtain d where "user_create H salt [] seller_raw 0 now = Inr ([] @ [d], d)"
    using user_create_seller [of "[]" 0 H salt now] by auto
  then have uc: "user_create H salt (db_users empty_db) seller_raw (db_next empty_db) now = Inr ([d], d)"
    by (simp only: users next0 append_Nil)
  have "find_seller (db_users empty_db) = None" by (simp add: users find_seller_def)
  from seed_created_ok [OF this uc] show ?thesis by blast
qed

subsection \<open>Properties of the seed\<close>

text \<open>
  C21. The seed always finishes, and succeeds on a well-formed database that has a seller
  or no user with the seed e-mail address: it exits with 0 and leaves a well-formed
  database (every stored id below the next fresh id).
\<close>

theorem seed_succeeds:
  assumes wf: "wf_db st"
    and ok: "find_seller (db_users st) \<noteq> None \<or> (\<forall>u \<in> set (db_users st). u ''email'' \<noteq> Some (JStr ''seller@test.com''))"
  shows "\<exists>st'. seedDatabase H salt True now st = (0, st') \<and> wf_db st'"
proof (cases "find_seller (db_users st)")
  case (Some s)
  from seed_found_ok [OF Some] obtain ps where
    run: "seedDatabase H salt True now st = (0, st\<lparr>db_products := ps, db_next := db_next st + 4\<rparr>)"
    and sd: "seeded ps (db_next st) now" by blast
  have "wf_db (st\<lparr>db_products := ps, db_next := db_next st + 4\<rparr>)"
    using wf seeded_ids [OF sd] ids_below_mono [of "db_users st" "db_next st" "db_next st + 4"]
    by (simp add: wf_db_def)
  with run show ?thesis by blast
next
  case None
  with ok have fresh: "\<forall>u \<in> set (db_users st). u ''_id'' \<noteq> Some (JId (db_next st)) \<and> u ''email'' \<noteq> Some (JStr ''seller@test.com'')"
    using wf by (fastforce simp: wf_db_def ids_below_def)
  from user_create_seller [OF fresh] obtain d where
    uc: "user_create H salt (db_users st) seller_raw (db_next st) now = Inr (db_users st @ [d], d)"
    and id: "d ''_id'' = Some (JId (db_next st))" by blast
  from seed_created_ok [OF None uc] obtain ps where
    run: "seedDatabase H salt True now st =
      (0, st\<lparr>db_users := db_users st @ [d], db_products := ps, db_next := Suc (db_next st) + 4\<rparr>)"
    and sd: "seeded ps (Suc (db_next st)) now" by blast
  have "ids_below (db_users st @ [d]) (Suc (db_next st) + 4)"
    using wf id ids_below_mono [of "db_users st" "db_next st" "Suc (db_next st) + 4"]
    by (simp add: wf_db_def ids_below_def)
  then have "wf_db (st\<lparr>db_users := db_users st @ [d], db_products := ps, db_next := Suc (db_next st) + 4\<rparr>)"
    using seeded_ids [OF sd] by (simp add: wf_db_def)
  with run show ?thesis by blast
qed

theorem seed_succeeds_witness:
  "\<exists>st'. seedDatabase demo_digest demo_salt1 True 5 empty_db = (0, st') \<and> wf_db st'"
  by (rule seed_succeeds) (simp_all add: empty_db_def wf_db_def ids_below_def)

text \<open>
  C22. When no seller exists but some user already has the address seller@test.com,
  creating the seed seller violates the unique index on email: the script exits with 1
  and leaves the database unchanged.
\<close>

theorem seed_duplicate_email:
  assumes "find_seller (db_users st) = None" and "u \<in> set (db_users st)"
    and "u ''email'' = Some (JStr ''seller@test.com'')"
  shows "seedDatabase H salt True now st = (1, st)"
proof -
  from user_create_dup [OF assms(2,3)] obtain e where
    "user_create H salt (db_users st) seller_raw (db_next st) now = Inl e" by blast
  with assms(1) show ?thesis by (rule seed_create_failed)
qed

theorem seed_duplicate_email_witness:
  "seedDatabase demo_digest demo_salt1 True 5 \<lparr>db_users = [buyer_doc], db_products = [], db_next = 1\<rparr> =
   (1, \<lparr>db_users = [buyer_doc], db_products = [], db_next = 1\<rparr>)"
  by (rule seed_duplicate_email [where u = buyer_doc]) (simp_all add: buyer_doc_def find_seller_def)

text \<open>
  C23. Running the seed again after a successful run succeeds, keeps the users collection
  as it is (the seller of the first run is found, not created again) and replaces the
  products by four fresh ones.
\<close>

theorem seed_rerun_keeps_users:
  assumes "seedDatabase H salt c now st = (0, st1)"
  shows "\<exists>st2. seedDatabase H salt True now' st1 = (0, st2) \<and> db_users st2 = db_users st1 \<and>
           length (db_products st2) = 4"
proof -
  from seed_exit0_cases [OF assms] obtain s where
    "(find_seller (db_users st) = Some s \<and> db_users st1 = db_users st) \<or>
     (find_seller (db_users st) = None \<and> user_create H salt (db_users st) seller_raw (db_next st) now = Inr (db_users st1, s))"
    by blast
  then have "find_seller (db_users st1) \<noteq> None"
  proof (elim disjE conjE)
    assume "find_seller (db_users st) = None"
      and "user_create H salt (db_users st) seller_raw (db_next st) now = Inr (db_users st1, s)"
    with user_create_seller_Inr show ?thesis by (fastforce simp: find_seller_append)
  qed simp
  then obtain s where "find_seller (db_users st1) = Some s" by blast
  from seed_found_ok [OF this] obtain ps where
    "seedDatabase H salt True now' st1 = (0, st1\<lparr>db_products := ps, db_next := db_next st1 + 4\<rparr>)"
    "seeded ps (db_next st1) now'" by blast
  then show ?thesis by (simp add: seeded_def)
qed

theorem seed_rerun_keeps_users_witness:
  "\<exists>st1 st2. seedDatabase demo_digest demo_salt1 True 5 empty_db = (0, st1) \<and>
     seedDatabase demo_digest demo_salt1 True 6 st1 = (0, st2) \<and> db_users st2 = db_users st1 \<and>
     length (db_products st2) = 4"
proof -
  from seed_empty_db obtain st1 where run: "seedDatabase demo_digest demo_salt1 True 5 empty_db = (0, st1)" by blast
  from run seed_rerun_keeps_users [OF run, of 6] show ?thesis by blast
qed

text \<open>
  C24. When the seed creates its seller, the stored password is the bcrypt hash of
  password123 made with a 29-character salt, so logging in as the seller found by the
  script's own query succeeds with that password.
\<close>

theorem seeded_seller_login:
  assumes "find_seller (db_users st) = None" and "length salt = salt_len"
    and "seedDatabase H salt True now st = (0, st')"
  shows "\<exists>u. find_seller (db_users st') = Some u \<and> matchPassword H (loaded_mdoc u) ''password123'' = Inr True"
proof -
  from seed_exit0_cases [OF assms(3)] assms(1) obtain s where
    "user_create H salt (db_users st) seller_raw (db_next st) now = Inr (db_users st', s)" by auto
  from user_create_seller_Inr [OF this] have
    "db_users st' = db_users st @ [s]" "s ''role'' = Some (JStr ''seller'')"
    "s ''password'' = Some (JStr (bcrypt_hash H salt ''password123''))" by auto
  with assms(1,2) show ?thesis
    by (simp add: find_seller_append matchPassword_def stored_password_def loaded_mdoc_def bcrypt_compare_hash)
qed

theorem seeded_seller_login_witness:
  "\<exists>st'. seedDatabase demo_digest demo_salt1 True 5 empty_db = (0, st') \<and>
     (\<exists>u. find_seller (db_users st') = Some u \<and> matchPassword demo_digest (loaded_mdoc u) ''password123'' = Inr True)"
proof -
  from seed_empty_db obtain st' where run: "seedDatabase demo_digest demo_salt1 True 5 empty_db = (0, st')" by blast
  have "find_seller (db_users empty_db) = None" by (simp add: empty_db_def find_seller_def)
  moreover have "length demo_salt1 = salt_len" by (simp add: demo_salt1_def salt_len_def)
  ultimately show ?thesis using run seeded_seller_login by blast
qed


end
