(* ===== verification/Widgets.thy ===== *)
theory Widgets
  imports Prelude
begin

text \<open>
  The data panels of the admin dashboard (\<open>src/admin/src/components\<close>): \<open>StatsGrid\<close>,
  \<open>RecentOrders\<close>, \<open>TopProducts\<close>, \<open>ActivityFeed\<close> and \<open>RevenueChart\<close>. Each is a
  constant array of records and a function of \<open>isDarkMode\<close> that maps the array to
  elements. A panel's view is a record of what it renders: the texts, the icons, the React
  keys and the class strings, with the theme choices of the template literals written
  out. \<open>RecentOrders\<close> reads \<open>statusConfig[order.status].bg\<close>; for a status the table
  lacks this reads a property of \<open>undefined\<close> and the render throws, the \<open>Inl\<close>
  branch of \<open>recent_row\<close>. framer-motion's animation properties and the recharts layout
  (axis ticks, gradient) do not affect content and are not modelled.
\<close>

text \<open>The lucide-react icons the dashboard draws.\<close>

datatype lucide =
    DollarSign | Users | ShoppingCart | TrendingUp | ArrowUp | ArrowDown | Sparkles
  | Filter | Download | MoreVertical | Eye | Star | User | PackageIcon | CreditCard
  | ClockIcon | Calendar | BarChart3 | TruckIcon | Settings | Zap | Search | Bell | Moon | Sun
  | Menu | ChevronDown

subsection \<open>StatsGrid.tsx\<close>

record stat =
  st_title :: string
  st_value :: string
  st_change :: string
  st_trend :: string
  st_icon :: lucide
  st_color :: string
  st_bgColor :: string
  st_borderColor :: string
  st_shadowColor :: string

definition mk_stat :: "string \<Rightarrow> string \<Rightarrow> string \<Rightarrow> lucide \<Rightarrow> string \<Rightarrow> stat" where
  "mk_stat t v c i col =
     \<lparr>st_title = t, st_value = v, st_change = c, st_trend = ''up'', st_icon = i,
      st_color = ''text-'' @ col, st_bgColor = ''bg-'' @ col @ ''/10'',
      st_borderColor = ''border-'' @ col @ ''/20'', st_shadowColor = ''shadow-'' @ col @ ''/20''\<rparr>"

definition stats :: "stat list" where
  "stats =
     [mk_stat ''Total Revenue'' (naira @ ''12,475,320'') ''+23.5%'' DollarSign ''emerald-500'',
      mk_stat ''Active Users'' ''54,239'' ''+12.2%'' Users ''blue-500'',
      mk_stat ''Total Orders'' ''12,847'' ''+18.4%'' ShoppingCart ''orange-500'',
      mk_stat ''Conversion Rate'' ''3.47%'' ''+8.1%'' TrendingUp ''purple-500'']"

record stat_view =
  sv_key :: string
  sv_card_class :: string
  sv_overlay_class :: string
  sv_icon_box_class :: string
  sv_icon :: lucide
  sv_icon_class :: string
  sv_badge_class :: string
  sv_arrow :: lucide
  sv_change :: string
  sv_value_class :: string
  sv_value :: string
  sv_title_class :: string
  sv_title :: string
  sv_sparkle_class :: string

definition stat_card_view :: "bool \<Rightarrow> stat \<Rightarrow> stat_view" where
  "stat_card_view dark s =
     \<lparr>sv_key = st_title s,
      sv_card_class = theme dark ''bg-gray-900 border-gray-800'' ''bg-white border-gray-200'' @
        '' border rounded-2xl p-6 relative overflow-hidden group cursor-pointer'',
      sv_overlay_class = ''absolute inset-0 bg-gradient-to-br '' @ st_bgColor s @
        '' opacity-0 group-hover:opacity-100 transition-opacity duration-300'',
      sv_icon_box_class = ''w-14 h-14 '' @ st_bgColor s @ '' '' @ st_borderColor s @
        '' border rounded-2xl flex items-center justify-center shadow-lg '' @ st_shadowColor s @
        '' group-hover:scale-110 transition-transform duration-300'',
      sv_icon = st_icon s,
      sv_icon_class = ''w-7 h-7 '' @ st_color s,
      sv_badge_class = ''flex items-center gap-1.5 px-2.5 py-1 rounded-full text-sm font-semibold '' @
        (if st_trend s = ''up'' then ''bg-green-500/20 text-green-500'' else ''bg-red-500/20 text-red-500''),
      sv_arrow = (if st_trend s = ''up'' then ArrowUp else ArrowDown),
      sv_change = st_change s,
      sv_value_class = ''text-3xl font-bold '' @ theme dark ''text-white'' ''text-gray-900'' @ '' mb-1'',
      sv_value = st_value s,
      sv_title_class = theme dark ''text-gray-400'' ''text-gray-600'' @ '' text-sm font-medium'',
      sv_title = st_title s,
      sv_sparkle_class = ''absolute -bottom-2 -right-2 w-20 h-20 '' @ st_color s @
        '' opacity-5 group-hover:opacity-10 transition-opacity''\<rparr>"

definition statsGrid :: "bool \<Rightarrow> stat_view list" where
  "statsGrid dark = map (stat_card_view dark) stats"

subsection \<open>RecentOrders.tsx\<close>

record recent_order =
  ro_id :: string
  ro_customer :: string
  ro_amount :: string
  ro_status :: string
  ro_date :: string
  ro_items :: nat

definition mk_recent :: "string \<Rightarrow> string \<Rightarrow> string \<Rightarrow> string \<Rightarrow> string \<Rightarrow> nat \<Rightarrow> recent_order" where
  "mk_recent i c a s d n = \<lparr>ro_id = i, ro_customer = c, ro_amount = a, ro_status = s, ro_date = d, ro_items = n\<rparr>"

definition recentOrders :: "recent_order list" where
  "recentOrders =
     [mk_recent ''ORD-2024-001'' ''Adebayo Johnson'' (naira @ ''15,230'') ''delivered'' ''2 hours ago'' 5,
      mk_recent ''ORD-2024-002'' ''Bisi Adekoya'' (naira @ ''8,750'') ''processing'' ''4 hours ago'' 3,
      mk_recent ''ORD-2024-003'' ''Chukwu Okafor'' (naira @ ''22,180'') ''out-for-delivery'' ''6 hours ago'' 7,
      mk_recent ''ORD-2024-004'' ''Folake Bello'' (naira @ ''3,420'') ''pending'' ''8 hours ago'' 2,
      mk_recent ''ORD-2024-005'' ''Ibrahim Musa'' (naira @ ''12,890'') ''delivered'' ''10 hours ago'' 4]"

record recent_style =
  rs_bg :: string
  rs_text :: string
  rs_label :: string

definition recent_statusConfig :: "(string \<times> recent_style) list" where
  "recent_statusConfig =
     [(''delivered'', \<lparr>rs_bg = ''bg-green-500/20'', rs_text = ''text-green-500'', rs_label = ''DELIVERED''\<rparr>),
      (''processing'', \<lparr>rs_bg = ''bg-blue-500/20'', rs_text = ''text-blue-500'', rs_label = ''PROCESSING''\<rparr>),
      (''out-for-delivery'', \<lparr>rs_bg = ''bg-orange-500/20'', rs_text = ''text-orange-500'', rs_label = ''OUT FOR DELIVERY''\<rparr>),
      (''pending'', \<lparr>rs_bg = ''bg-gray-500/20'', rs_text = ''text-gray-500'', rs_label = ''PENDING''\<rparr>)]"

record recent_row_view =
  rr_key :: string
  rr_class :: string
  rr_id_class :: string
  rr_id :: string
  rr_initials :: string
  rr_customer_class :: string
  rr_customer :: string
  rr_items :: string
  rr_amount_class :: string
  rr_amount :: string
  rr_status_class :: string
  rr_status_label :: string
  rr_date_class :: string
  rr_date :: string

definition recent_row :: "bool \<Rightarrow> recent_order \<Rightarrow> js_error + recent_row_view" where
  "recent_row dark ord =
     (case map_of recent_statusConfig (ro_status ord) of
        None \<Rightarrow> Inl (TypeError ''bg'')
      | Some sc \<Rightarrow>
          Inr \<lparr>rr_key = ro_id ord,
               rr_class = ''border-b '' @ theme dark ''border-gray-800 hover:bg-gray-800/30'' ''border-gray-200 hover:bg-gray-50'' @
                 '' transition-all group'',
               rr_id_class = theme dark ''text-white'' ''text-gray-900'' @ '' font-semibold text-sm'',
               rr_id = ro_id ord,
               rr_initials = initials (ro_customer ord),
               rr_customer_class = theme dark ''text-white'' ''text-gray-900'' @ '' font-medium block'',
               rr_customer = ro_customer ord,
               rr_items = show_nat (ro_items ord) @ '' items'',
               rr_amount_class = theme dark ''text-white'' ''text-gray-900'' @ '' font-bold'',
               rr_amount = ro_amount ord,
               rr_status_class = ''px-3 py-1.5 rounded-full text-xs font-bold '' @ rs_bg sc @ '' '' @ rs_text sc,
               rr_status_label = rs_label sc,
               rr_date_class = theme dark ''text-gray-400'' ''text-gray-600'' @ '' text-sm'',
               rr_date = ro_date ord\<rparr>)"

fun recent_rows :: "bool \<Rightarrow> recent_order list \<Rightarrow> js_error + recent_row_view list" where
  "recent_rows dark [] = Inr []"
| "recent_rows dark (x # xs) =
     (case recent_row dark x of
        Inl e \<Rightarrow> Inl e
      | Inr r \<Rightarrow> (case recent_rows dark xs of Inl e \<Rightarrow> Inl e | Inr rs \<Rightarrow> Inr (r # rs)))"

record recent_panel =
  rp_class :: string
  rp_title_class :: string
  rp_filter_class :: string
  rp_head_class :: string
  rp_th_class :: string
  rp_rows :: "recent_row_view list"

definition recentOrdersPanel :: "bool \<Rightarrow> js_error + recent_panel" where
  "recentOrdersPanel dark =
     (case recent_rows dark recentOrders of
        Inl e \<Rightarrow> Inl e
      | Inr rows \<Rightarrow>
          Inr \<lparr>rp_class = theme dark ''bg-gray-900 border-gray-800'' ''bg-white border-gray-200'' @
                 '' border rounded-2xl overflow-hidden'',
               rp_title_class = ''text-xl font-bold '' @ theme dark ''text-white'' ''text-gray-900'',
               rp_filter_class = ''px-4 py-2 rounded-xl '' @
                 theme dark ''hover:bg-gray-800 text-gray-400'' ''hover:bg-gray-100 text-gray-600'' @
                 '' transition-all flex items-center gap-2 border '' @ theme dark ''border-gray-800'' ''border-gray-200'',
               rp_head_class = ''border-b '' @ theme dark ''border-gray-800 bg-gray-800/30'' ''border-gray-200 bg-gray-50'',
               rp_th_class = ''text-left p-4 '' @ theme dark ''text-gray-400'' ''text-gray-600'' @
                 '' font-semibold text-xs uppercase tracking-wider'',
               rp_rows = rows\<rparr>)"

subsection \<open>TopProducts.tsx\<close>

text \<open>\<open>rating\<close> is a number with one decimal, kept in tenths.\<close>

record top_product =
  tp_name :: string
  tp_sales :: nat
  tp_revenue :: string
  tp_trend :: string
  tp_rating :: nat

definition mk_top :: "string \<Rightarrow> nat \<Rightarrow> string \<Rightarrow> string \<Rightarrow> nat \<Rightarrow> top_product" where
  "mk_top n s r t ra = \<lparr>tp_name = n, tp_sales = s, tp_revenue = r, tp_trend = t, tp_rating = ra\<rparr>"

definition topProducts :: "top_product list" where
  "topProducts =
     [mk_top ''iPhone 14 Pro Max'' 234 (naira @ ''2,340,000'') ''+12%'' 48,
      mk_top ''Samsung Galaxy S23'' 189 (naira @ ''1,890,000'') ''+8%'' 46,
      mk_top ''MacBook Pro M2'' 156 (naira @ ''4,680,000'') ''+15%'' 49,
      mk_top ''AirPods Pro'' 312 (naira @ ''936,000'') ''+20%'' 47,
      mk_top ''iPad Air'' 145 (naira @ ''2,175,000'') ''+5%'' 45]"

record top_view =
  tv_key :: string
  tv_class :: string
  tv_name_class :: string
  tv_name :: string
  tv_trend :: string
  tv_sales :: string
  tv_rating :: string
  tv_revenue_class :: string
  tv_revenue :: string

definition top_product_view :: "bool \<Rightarrow> top_product \<Rightarrow> top_view" where
  "top_product_view dark p =
     \<lparr>tv_key = tp_name p,
      tv_class = ''p-4 rounded-xl '' @ theme dark ''bg-gray-800/50 hover:bg-gray-800'' ''bg-gray-50 hover:bg-gray-100'' @
        '' transition-all cursor-pointer group'',
      tv_name_class = ''font-semibold '' @ theme dark ''text-white'' ''text-gray-900'' @
        '' group-hover:text-orange-500 transition-colors'',
      tv_name = tp_name p,
      tv_trend = tp_trend p,
      tv_sales = show_nat (tp_sales p) @ '' sales'',
      tv_rating = js_tenths (tp_rating p),
      tv_revenue_class = ''font-bold '' @ theme dark ''text-white'' ''text-gray-900'',
      tv_revenue = tp_revenue p\<rparr>"

definition topProductsView :: "bool \<Rightarrow> top_view list" where
  "topProductsView dark = map (top_product_view dark) topProducts"

subsection \<open>ActivityFeed.tsx\<close>

record activity =
  ac_type :: string
  ac_user :: string
  ac_action :: string
  ac_time :: string
  ac_icon :: lucide
  ac_color :: string
  ac_bg :: string

definition mk_activity :: "string \<Rightarrow> string \<Rightarrow> string \<Rightarrow> string \<Rightarrow> lucide \<Rightarrow> string \<Rightarrow> activity" where
  "mk_activity ty u a t i col =
     \<lparr>ac_type = ty, ac_user = u, ac_action = a, ac_time = t, ac_icon = i,
      ac_color = ''text-'' @ col, ac_bg = ''bg-'' @ col @ ''/10''\<rparr>"

definition activities :: "activity list" where
  "activities =
     [mk_activity ''order'' ''Adebayo J.'' ''placed a new order'' ''2 min ago'' ShoppingCart ''blue-500'',
      mk_activity ''user'' ''Bisi A.'' ''registered as seller'' ''15 min ago'' User ''green-500'',
      mk_activity ''product'' ''Chukwu O.'' ''added new product'' ''1 hour ago'' PackageIcon ''purple-500'',
      mk_activity ''payment'' ''Folake B.'' ''completed payment'' ''2 hours ago'' CreditCard ''orange-500'',
      mk_activity ''order'' ''Ibrahim M.'' ''order delivered'' ''3 hours ago'' ShoppingCart ''emerald-500'']"

record activity_view =
  av_key :: nat
  av_icon_box_class :: string
  av_icon :: lucide
  av_icon_class :: string
  av_text_class :: string
  av_user :: string
  av_action :: string
  av_time :: string

definition activity_item_view :: "bool \<Rightarrow> nat \<Rightarrow> activity \<Rightarrow> activity_view" where
  "activity_item_view dark i a =
     \<lparr>av_key = i,
      av_icon_box_class = ''w-10 h-10 '' @ ac_bg a @
        '' rounded-xl flex items-center justify-center flex-shrink-0 group-hover:scale-110 transition-transform'',
      av_icon = ac_icon a,
      av_icon_class = ''w-5 h-5 '' @ ac_color a,
      av_text_class = theme dark ''text-white'' ''text-gray-900'' @ '' text-sm'',
      av_user = ac_user a,
      av_action = ac_action a,
      av_time = ac_time a\<rparr>"

definition activityFeed :: "bool \<Rightarrow> activity_view list" where
  "activityFeed dark = map2 (activity_item_view dark) [0..<length activities] activities"

subsection \<open>RevenueChart.tsx\<close>

record chart_point =
  cp_name :: string
  cp_revenue :: nat
  cp_orders :: nat

definition chart_data :: "chart_point list" where
  "chart_data =
     map (\<lambda>(n, r, k). \<lparr>cp_name = n, cp_revenue = r, cp_orders = k\<rparr>)
       [(''Jan'', 4000, 240), (''Feb'', 3000, 198), (''Mar'', 5000, 320), (''Apr'', 4500, 278),
        (''May'', 6000, 389), (''Jun'', 5500, 349), (''Jul'', 7000, 430)]"

text \<open>What the chart shows: the \<open>XAxis\<close> reads \<open>name\<close>, the single \<open>Area\<close> reads \<open>revenue\<close>.\<close>

record chart_view =
  cv_range_label :: string
  cv_button_class :: string
  cv_grid_stroke :: string
  cv_axis_stroke :: string
  cv_tooltip_bg :: string
  cv_tooltip_border :: string
  cv_series :: "(string \<times> nat) list"

definition revenue_view :: "bool \<Rightarrow> chart_point list \<Rightarrow> chart_view" where
  "revenue_view dark ds =
     \<lparr>cv_range_label = ''Last 7 months'',
      cv_button_class = ''px-4 py-2 rounded-xl '' @ theme dark ''bg-gray-800 hover:bg-gray-700'' ''bg-gray-100 hover:bg-gray-200'' @
        '' transition-all flex items-center gap-2 border '' @ theme dark ''border-gray-700'' ''border-gray-200'',
      cv_grid_stroke = theme dark ''#2a2a2a'' ''#e5e5e5'',
      cv_axis_stroke = theme dark ''#666'' ''#999'',
      cv_tooltip_bg = theme dark ''#1f1f1f'' ''#fff'',
      cv_tooltip_border = ''1px solid '' @ theme dark ''#2a2a2a'' ''#e5e5e5'',
      cv_series = map (\<lambda>p. (cp_name p, cp_revenue p)) ds\<rparr>"

definition revenueChart :: "bool \<Rightarrow> chart_view" where
  "revenueChart dark = revenue_view dark chart_data"

lemmas widget_defs [model_defs] = statsGrid_def stat_card_view_def recent_row_def recentOrdersPanel_def
  topProductsView_def top_product_view_def activityFeed_def activity_item_view_def revenue_view_def
  revenueChart_def

subsection \<open>Properties of the panels\<close>

lemma recent_rows_ok:
  "\<forall>x \<in> set xs. map_of recent_statusConfig (ro_status x) \<noteq> None \<Longrightarrow>
   \<exists>rs. recent_rows dark xs = Inr rs \<and> map rr_key rs = map ro_id xs"
  by (induction xs) (auto simp: recent_row_def split: option.splits)

lemma recent_statuses_configured: "\<forall>x \<in> set recentOrders. map_of recent_statusConfig (ro_status x) \<noteq> None"
  by (simp add: recentOrders_def recent_statusConfig_def mk_recent_def)

lemma recent_panel_ok: "\<exists>p. recentOrdersPanel dark = Inr p \<and> map rr_key (rp_rows p) = map ro_id recentOrders"
proof -
  obtain rs where "recent_rows dark recentOrders = Inr rs" "map rr_key rs = map ro_id recentOrders"
    using recent_rows_ok [OF recent_statuses_configured] by blast
  then show ?thesis by (simp add: recentOrdersPanel_def)
qed

lemma revenue_ignores_orders:
  "revenue_view dark (map (\<lambda>p. p\<lparr>cp_orders := f p\<rparr>) ds) = revenue_view dark ds"
  by (simp add: revenue_view_def comp_def)

end
