(* ===== verification/Dashboard.thy ===== *)
theory Dashboard
  imports Widgets
begin

text \<open>
  The dashboard page (\<open>src/admin/src/components/Dashboard.tsx\<close>) and its two chrome
  components, \<open>Sidebar.tsx\<close> and \<open>Header.tsx\<close>. \<open>Dashboard\<close> keeps two pieces of
  state, \<open>isSidebarOpen\<close> and \<open>isDarkMode\<close>, and passes them with their setters to the
  header; \<open>Header\<close> keeps its own \<open>searchQuery\<close>. The state of the page is the three
  of them (\<open>dash_state\<close>); the header's three handlers are the events (\<open>dash_event\<close>,
  \<open>dash_step\<close>). A render (\<open>dashboard_view\<close>) composes the views of every component
  of the page, and throws when \<open>RecentOrders\<close> throws. The sidebar is wrapped in
  \<open>AnimatePresence\<close> and \<open>{isOpen && ...}\<close>: it is rendered exactly when the sidebar
  is open (the exit animation is not modelled).

  In JSX \<open>{x && <el/>}\<close> renders nothing for \<open>undefined\<close> and \<open>false\<close>, but renders
  the number \<open>0\<close> as the text "0"; \<open>notification_badge\<close> writes this out for the
  sidebar's \<open>notifications\<close> counts.
\<close>

subsection \<open>Sidebar.tsx\<close>

record sidebar_item =
  si_icon :: lucide
  si_label :: string
  si_active :: bool
  si_notifications :: "nat option"

definition nav :: "lucide \<Rightarrow> string \<Rightarrow> bool \<Rightarrow> nat option \<Rightarrow> sidebar_item" where
  "nav i l a n = \<lparr>si_icon = i, si_label = l, si_active = a, si_notifications = n\<rparr>"

definition sidebarItems :: "sidebar_item list" where
  "sidebarItems =
     [nav BarChart3 ''Dashboard'' True None,
      nav ShoppingCart ''Orders'' False (Some 12),
      nav Users ''Customers'' False (Some 3),
      nav PackageIcon ''Products'' False None,
      nav TruckIcon ''Riders'' False (Some 5),
      nav CreditCard ''Payments'' False None,
      nav TrendingUp ''Analytics'' False None,
      nav Settings ''Settings'' False None]"

datatype badge = NoBadge | StrayText string | CountBadge string

definition notification_badge :: "nat option \<Rightarrow> badge" where
  "notification_badge n =
     (case n of None \<Rightarrow> NoBadge | Some k \<Rightarrow> if k = 0 then StrayText ''0'' else CountBadge (show_nat k))"

record nav_view =
  nv_key :: string
  nv_class :: string
  nv_highlight :: bool
  nv_icon :: lucide
  nv_label :: string
  nv_badge :: badge

definition nav_item_view :: "bool \<Rightarrow> sidebar_item \<Rightarrow> nav_view" where
  "nav_item_view dark it =
     \<lparr>nv_key = si_label it,
      nv_class = ''w-full flex items-center gap-3 px-4 py-3.5 rounded-xl mb-2 transition-all group relative '' @
        (if si_active it
         then ''bg-gradient-to-r from-orange-500/20 to-orange-600/20 text-orange-500 border border-orange-500/30 shadow-lg shadow-orange-500/10''
         else theme dark ''text-gray-400 hover:text-white hover:bg-gray-800/50'' ''text-gray-600 hover:text-gray-900 hover:bg-gray-100''),
      nv_highlight = si_active it,
      nv_icon = si_icon it,
      nv_label = si_label it,
      nv_badge = notification_badge (si_notifications it)\<rparr>"

record sidebar_view =
  sb_class :: string
  sb_brand_class :: string
  sb_nav :: "nav_view list"
  sb_footer_class :: string
  sb_user_class :: string

definition sidebar :: "bool \<Rightarrow> bool \<Rightarrow> sidebar_view option" where
  "sidebar isOpen dark =
     (if isOpen
      then Some \<lparr>sb_class = ''w-72 '' @ theme dark ''bg-gray-900 border-gray-800'' ''bg-white border-gray-200'' @
                   '' border-r flex flex-col fixed lg:sticky top-0 h-screen z-40'',
                 sb_brand_class = ''font-bold text-xl text-white'',
                 sb_nav = map (nav_item_view dark) sidebarItems,
                 sb_footer_class = ''p-4 border-t '' @ theme dark ''border-gray-800'' ''border-gray-200'',
                 sb_user_class = ''text-white font-medium truncate''\<rparr>
      else None)"

subsection \<open>Header.tsx\<close>

record header_view =
  hv_class :: string
  hv_menu_class :: string
  hv_search_icon_class :: string
  hv_search_value :: string
  hv_input_class :: string
  hv_theme_class :: string
  hv_theme_icon :: lucide
  hv_bell_class :: string
  hv_divider_class :: string

definition header :: "bool \<Rightarrow> string \<Rightarrow> header_view" where
  "header dark q =
     \<lparr>hv_class = theme dark ''bg-gray-900/80 border-gray-800'' ''bg-white/80 border-gray-200'' @
        '' border-b backdrop-blur-xl sticky top-0 z-30'',
      hv_menu_class = ''p-2.5 rounded-xl '' @ theme dark ''hover:bg-gray-800 text-gray-400'' ''hover:bg-gray-100 text-gray-600'' @
        '' transition-all hover:scale-105'',
      hv_search_icon_class = ''absolute left-4 top-1/2 transform -translate-y-1/2 w-5 h-5 '' @
        theme dark ''text-gray-400'' ''text-gray-400'',
      hv_search_value = q,
      hv_input_class = ''pl-12 pr-4 py-3 w-full rounded-xl '' @
        theme dark ''bg-gray-800 text-white border-gray-700 focus:border-orange-500'' ''bg-gray-100 text-gray-900 border-gray-200 focus:border-orange-500'' @
        '' border focus:outline-none focus:ring-2 focus:ring-orange-500/20 transition-all'',
      hv_theme_class = ''p-2.5 rounded-xl '' @
        theme dark ''hover:bg-gray-800 text-gray-400 hover:text-orange-500'' ''hover:bg-gray-100 text-gray-600 hover:text-orange-500'' @
        '' transition-all'',
      hv_theme_icon = (if dark then Sun else Moon),
      hv_bell_class = ''relative p-2.5 rounded-xl '' @ theme dark ''hover:bg-gray-800 text-gray-400'' ''hover:bg-gray-100 text-gray-600'' @
        '' transition-all'',
      hv_divider_class = ''h-8 w-px '' @ theme dark ''bg-gray-800'' ''bg-gray-200''\<rparr>"

subsection \<open>Dashboard.tsx: state, events and the page\<close>

record dash_state =
  d_sidebar_open :: bool
  d_dark :: bool
  d_header_query :: string

definition dash_init :: dash_state where
  "dash_init = \<lparr>d_sidebar_open = True, d_dark = True, d_header_query = []\<rparr>"

datatype dash_event = MenuClick | ThemeClick | HeaderSearch string

text \<open>The header's \<open>onClick\<close> and \<open>onChange\<close> handlers (\<open>Header.tsx\<close>, lines 16, 27, 36).\<close>

fun dash_step :: "dash_state \<Rightarrow> dash_event \<Rightarrow> dash_state" where
  "dash_step s MenuClick = s\<lparr>d_sidebar_open := \<not> d_sidebar_open s\<rparr>"
| "dash_step s ThemeClick = s\<lparr>d_dark := \<not> d_dark s\<rparr>"
| "dash_step s (HeaderSearch v) = s\<lparr>d_header_query := v\<rparr>"

inductive dash_reachable :: "dash_state \<Rightarrow> bool" where
  init: "dash_reachable dash_init"
| step: "dash_reachable s \<Longrightarrow> dash_reachable (dash_step s e)"

text \<open>The greeting ends with the waving-hand emoji U+1F44B, as its four UTF-8 bytes.\<close>

definition wave :: string where
  "wave = [CHR 0xF0, CHR 0x9F, CHR 0x91, CHR 0x8B]"

record dash_view =
  dv_root_class :: string
  dv_sidebar :: "sidebar_view option"
  dv_header :: header_view
  dv_heading_class :: string
  dv_heading :: string
  dv_subtitle_class :: string
  dv_stats :: "stat_view list"
  dv_revenue :: chart_view
  dv_recent :: recent_panel
  dv_top :: "top_view list"
  dv_activity :: "activity_view list"

definition dashboard_view :: "dash_state \<Rightarrow> js_error + dash_view" where
  "dashboard_view s =
     (let dark = d_dark s in
      case recentOrdersPanel dark of
        Inl e \<Rightarrow> Inl e
      | Inr recent \<Rightarrow>
          Inr \<lparr>dv_root_class = ''min-h-screen '' @ theme dark ''bg-black'' ''bg-gray-50'' @ '' flex'',
               dv_sidebar = sidebar (d_sidebar_open s) dark,
               dv_header = header dark (d_header_query s),
               dv_heading_class = ''text-3xl font-bold text-white mb-2'',
               dv_heading = ''Welcome back, Admin '' @ wave,
               dv_subtitle_class = theme dark ''text-gray-400'' ''text-gray-600'',
               dv_stats = statsGrid dark,
               dv_revenue = revenueChart dark,
               dv_recent = recent,
               dv_top = topProductsView dark,
               dv_activity = activityFeed dark\<rparr>)"

lemmas dash_defs [model_defs] = nav_def notification_badge_def nav_item_view_def sidebar_def header_def
  dash_init_def dashboard_view_def

subsection \<open>Properties of the page\<close>

lemma dash_all_reachable: "dash_reachable s"
proof (cases s)
  case (fields b1 b2 q)
  have "dash_reachable (dash_init\<lparr>d_sidebar_open := b1\<rparr>)"
  proof (cases b1)
    case True then show ?thesis using dash_reachable.init by (simp add: dash_init_def)
  next
    case False then show ?thesis
      using dash_reachable.step [OF dash_reachable.init, of MenuClick] by (simp add: dash_init_def)
  qed
  then have "dash_reachable (dash_init\<lparr>d_sidebar_open := b1, d_dark := b2\<rparr>)"
  proof (cases b2)
    case True then show ?thesis using \<open>dash_reachable (dash_init\<lparr>d_sidebar_open := b1\<rparr>)\<close>
      by (simp add: dash_init_def)
  next
    case False
    assume r: "dash_reachable (dash_init\<lparr>d_sidebar_open := b1\<rparr>)"
    from dash_reachable.step [OF r, of ThemeClick] False show ?thesis by (simp add: dash_init_def)
  qed
  from dash_reachable.step [OF this, of "HeaderSearch q"] fields show ?thesis by (simp add: dash_init_def)
qed

lemma dashboard_view_ok:
  "\<exists>v. dashboard_view s = Inr v \<and> dv_sidebar v = sidebar (d_sidebar_open s) (d_dark s) \<and>
     dv_header v = header (d_dark s) (d_header_query s) \<and> map rr_key (rp_rows (dv_recent v)) = map ro_id recentOrders"
proof -
  from recent_panel_ok obtain p where "recentOrdersPanel (d_dark s) = Inr p"
    "map rr_key (rp_rows p) = map ro_id recentOrders" by blast
  then show ?thesis by (simp add: dashboard_view_def Let_def)
qed

text \<open>
  C25. Typing in the header's search box changes nothing on the page but the box itself: the render after the input event equals the render before it with only the input's value replaced.
\<close>

theorem header_search_inert:
  "dashboard_view (dash_step s (HeaderSearch q)) =
   map_sum id (\<lambda>v. v\<lparr>dv_header := (dv_header v)\<lparr>hv_search_value := q\<rparr>\<rparr>) (dashboard_view s)"
  by (simp add: dashboard_view_def header_def Let_def split: sum.split)

text \<open>
  C26. In light mode the greeting and the sidebar's brand name and user name keep the class text-white, on the light backgrounds bg-gray-50 and bg-white: white text on a near-white background.
\<close>

theorem light_mode_white_text:
  "\<exists>v sv. dashboard_view (s\<lparr>d_dark := False, d_sidebar_open := True\<rparr>) = Inr v \<and> dv_sidebar v = Some sv \<and>
     sublist ''bg-gray-50'' (dv_root_class v) \<and> sublist ''text-white'' (dv_heading_class v) \<and>
     sublist ''bg-white'' (sb_class sv) \<and> sublist ''text-white'' (sb_brand_class sv) \<and>
     sublist ''text-white'' (sb_user_class sv)"
proof -
  from dashboard_view_ok obtain v where v: "dashboard_view (s\<lparr>d_dark := False, d_sidebar_open := True\<rparr>) = Inr v"
    "dv_sidebar v = sidebar True False" by fastforce
  moreover from v(1) have "dv_root_class v = ''min-h-screen bg-gray-50 flex''"
    "dv_heading_class v = ''text-3xl font-bold text-white mb-2''"
    by (auto simp: dashboard_view_def theme_def Let_def split: sum.splits)
  ultimately show ?thesis
    by (simp add: sidebar_def theme_def sublist_code)
qed

text \<open>
  C27. Every list the dashboard renders has distinct React keys: the stat cards, the top products, the activity items, the sidebar entries and the recent-order rows, which render without error.
\<close>

theorem dashboard_keys_distinct:
  "distinct (map sv_key (statsGrid d)) \<and> distinct (map tv_key (topProductsView d)) \<and>
   distinct (map av_key (activityFeed d)) \<and> distinct (map nv_key (map (nav_item_view d) sidebarItems)) \<and>
   (\<exists>p. recentOrdersPanel d = Inr p \<and> distinct (map rr_key (rp_rows p)))"
proof -
  have "distinct (map ro_id recentOrders)" by (simp add: recentOrders_def mk_recent_def)
  with recent_panel_ok have "\<exists>p. recentOrdersPanel d = Inr p \<and> distinct (map rr_key (rp_rows p))" by metis
  moreover have "distinct (map sv_key (statsGrid d))"
    by (simp add: statsGrid_def stat_card_view_def stats_def mk_stat_def)
  moreover have "distinct (map tv_key (topProductsView d))"
    by (simp add: topProductsView_def top_product_view_def topProducts_def mk_top_def)
  moreover have "distinct (map av_key (activityFeed d))"
    by (simp add: activityFeed_def activity_item_view_def activities_def)
  moreover have "distinct (map nv_key (map (nav_item_view d) sidebarItems))"
    by (simp add: nav_item_view_def sidebarItems_def nav_def)
  ultimately show ?thesis by blast
qed

end
