(* ===== verification/Spec2Isabelle.thy ===== *)
theory Spec2Isabelle
  imports Models OrderLifecycle OrdersPage UserAuth AuthRoutes Server Seed Widgets Dashboard
begin

text \<open>
  SmartLink: a marketplace admin dashboard (Next.js, \<open>src/admin/src\<close>) and a thin
  Express/Mongoose backend (\<open>src/smartlink-backend\<close>, \<open>src/smartlink_backend\<close>).
  The backend has three Mongoose models, an authentication router, the Express server
  that mounts six routers, and a seeding script; the dashboard renders constant sample
  data and keeps only UI state. The two halves do not call each other in the snapshot;
  they share a vocabulary of order statuses, compared by the theorem of this theory.

  \<^bold>\<open>Library layout\<close> (each theory opens with a text saying what it holds).
  \<^item> \<open>Prelude\<close>: the JavaScript built-ins the code calls (\<open>toLowerCase\<close>,
    \<open>includes\<close>, \<open>split\<close>, \<open>join\<close>, \<open>s[0]\<close>, number printing), decimal
    parsing, \<open>TypeError\<close>, the template idiom \<open>theme\<close>, the shared \<open>initials\<close>,
    and the lemma collections \<open>js_simps\<close> and \<open>model_defs\<close>.
  \<^item> \<open>Mongoose\<close>: the library semantics the schemas rely on (casting, defaults, strict
    mode, enum validation, timestamps, unique indexes), with the theorem that every created
    document conforms to its schema and that keys outside the schema are dropped. Library
    behaviour, not repository code, so it is not in the map of the manifest.
  \<^item> \<open>Models\<close>: \<open>models/Order.js\<close>, \<open>User.js\<close>, \<open>Product.js\<close> as schema data,
    the enumerations as datatypes with their string encodings, and the typed \<open>order\<close>
    record with the typed reading \<open>order_of_doc\<close> of a stored document (created documents
    are well-typed; the status default and the enum error).
  \<^item> \<open>OrderLifecycle\<close>: the order lifecycle of the spec (assign, pick, deliver, cancel).
    Its routes and controllers are not in the snapshot, so it is modelled from the spec
    over the typed order record: operations returning \<open>order_error + order\<close>, an
    inductive reachability relation with its invariant, terminal states, error precedence,
    and the refinement of the abstract status graph.
  \<^item> \<open>UserAuth\<close>: \<open>matchPassword\<close> and the \<open>pre("save")\<close> hook of \<open>User.js\<close>, with
    bcrypt as a salt followed by a digest \<open>H salt pw\<close> for an arbitrary \<open>H\<close>. A save
    returns the document written and the in-memory document; when \<open>next()\<close> is called
    early the write happens before the rehash settles (the schedule in which bcrypt's cost-10
    hash outlasts the write). Shows signup-then-login, and that an unmodified password is
    rehashed in memory and corrupted by the next save.
  \<^item> \<open>AuthRoutes\<close>: \<open>routes/auth.js\<close>, the validator chains as data (with validator.js's
    \<open>isLength\<close>, which counts code points, over UTF-8 byte strings) and the router's dispatch;
    the chains record errors and never end a request.
  \<^item> \<open>Server\<close>: \<open>server.js\<close>, the middleware stack with error propagation, \<open>cors()\<close>
    ending \<open>OPTIONS\<close> requests with 204, the mount table, and \<open>PORT\<close>; mount order is
    irrelevant and a malformed JSON body never reaches a router.
  \<^item> \<open>Seed\<close>: \<open>seed.js\<close> over a database of two collections and a fresh-id counter,
    composed from \<open>Mongoose\<close>, \<open>Models\<close> and the hook of \<open>UserAuth\<close>: exit code 0 and
    a well-formed database on every well-formed start with a seller or a free seed address,
    the duplicate-e-mail failure, re-runs, and the seeded seller's login. The script requires
    models under \<open>src/smartlink_backend/models\<close>, absent from the snapshot; the model uses
    the schemas of \<open>src/smartlink-backend/models\<close>, so nothing is claimed of the products'
    seller reference. Fresh ids are a counter, standing for ObjectIds that never repeat.
  \<^item> \<open>OrdersPage\<close>: \<open>app/orders/page.tsx\<close>, its state, events, filtering and rows.
  \<^item> \<open>Widgets\<close>: the dashboard's data panels (\<open>StatsGrid\<close>, \<open>RecentOrders\<close>,
    \<open>TopProducts\<close>, \<open>ActivityFeed\<close>, \<open>RevenueChart\<close>) as functions of the theme.
  \<^item> \<open>Dashboard\<close>: \<open>Sidebar\<close>, \<open>Header\<close> and \<open>Dashboard\<close>: the page state, the
    header's events, and the composed render.

  \<^bold>\<open>Bounds and fuel.\<close> No definition needs fuel: every loop of the code is a map, a
  filter or a fold over a finite list, modelled by structural recursion.

  \<^bold>\<open>Not modelled.\<close> The persistence boundary of the spec (compare-and-swap commits,
  concurrent clients): the repository has no store code to check it against. The
  controllers, the \<open>auth\<close> middleware, \<open>config/db.js\<close> and the other routers, which
  are not in the snapshot (the model stops where the code calls them; the guard's decision
  and \<open>isEmail\<close> are parameters). Network and console I/O, \<open>dotenv\<close>,
  \<open>process.exit\<close> beyond its exit code. The pages \<open>app/loading.tsx\<close> and
  \<open>app/not-found.tsx\<close>, which are static markup with animations. Animation properties
  of framer-motion and the chart layout of recharts. \<open>toLowerCase\<close> and
  \<open>toUpperCase\<close> are modelled on ASCII only (other bytes are left unchanged), so the
  page's search is faithful for ASCII queries and names. Mongoose's prototype-key lookups
  (\<open>statusConfig["constructor"]\<close>), fractional numbers outside the one-decimal ratings,
  and JSON values other than strings, numbers, booleans, ids and arrays.
\<close>

subsection \<open>Properties across components\<close>

text \<open>
  C28. The dashboard's two order tables and the backend disagree on the status vocabulary: an order whose status is one of the Order.js enumeration renders in RecentOrders only when it is pending or delivered, and in the orders page only when it is pending, delivered or cancelled; assigned and picked orders make both tables throw.
\<close>

theorem backend_statuses_crash_tables:
  "(\<exists>v. recent_row d (r\<lparr>ro_status := status_str x\<rparr>) = Inr v) = (x \<in> {Pending, Delivered}) \<and>
   (\<exists>v. order_row d (u\<lparr>uo_status := status_str x\<rparr>) = Inr v) = (x \<in> {Pending, Delivered, Cancelled})"
  by (cases x) (simp_all add: recent_row_def order_row_def recent_statusConfig_def statusConfig_def)

end
